theory Spec2Isabelle
  imports Main "HOL-Library.Sublist"
begin

section \<open>Remote training launcher: \<^verbatim>\<open>remote_training/remote_training.py\<close>\<close>

text \<open>
  The script builds a command-line parser, fills a notebook template, writes a kernel
  metadata file and optionally pushes the kernel or downloads its results. The model below
  follows the source function by function. Python strings are lists of characters; every call
  that leaves the program (subprocess, file, argparse, hosted-notebook API) is an
  \<^emph>\<open>event\<close> appended to a log, and whether it raises, and what it returns, is decided
  by an environment that sees the log so far. An exception is the left summand of the result.
\<close>

subsection \<open>Python string operations\<close>

text \<open>\<^verbatim>\<open>sep.join(xs)\<close>.\<close>

fun join :: "string \<Rightarrow> string list \<Rightarrow> string" where
  "join sep [] = []"
| "join sep [x] = x"
| "join sep (x # y # ys) = x @ sep @ join sep (y # ys)"

text \<open>
  \<^verbatim>\<open>s.replace(old, new)\<close>: every non-overlapping occurrence of \<open>old\<close>, found from the
  left, is replaced; an empty \<open>old\<close> matches before every character and at the end.
\<close>

function str_replace :: "string \<Rightarrow> string \<Rightarrow> string \<Rightarrow> string" where
  "str_replace old new [] = (if old = [] then new else [])"
| "str_replace old new (c # cs) =
     (if old = [] then new @ c # str_replace old new cs
      else if prefix old (c # cs) then new @ str_replace old new (drop (length old) (c # cs))
      else c # str_replace old new cs)"
  by pat_completeness auto
termination
  by (relation "measure (\<lambda>(old, new, s). length s)") (auto simp: neq_Nil_conv)

text \<open>\<^verbatim>\<open>sub in s\<close> on strings: \<open>sub\<close> occurs in \<open>s\<close> as a contiguous substring.\<close>

fun str_contains :: "string \<Rightarrow> string \<Rightarrow> bool" where
  "str_contains sub [] = (sub = [])"
| "str_contains sub (c # cs) = (prefix sub (c # cs) \<or> str_contains sub cs)"

text \<open>
  \<^verbatim>\<open>s.lower()\<close> on the code points a \<^typ>\<open>char\<close> can hold (0 to 255): the ASCII capitals
  and the Latin-1 capitals (192 to 222 without the multiplication sign 215) move up by 32.
\<close>

definition lower_char :: "char \<Rightarrow> char" where
  "lower_char c =
     (let n = (of_char c :: nat)
      in if (65 \<le> n \<and> n \<le> 90) \<or> (192 \<le> n \<and> n \<le> 222 \<and> n \<noteq> 215)
         then char_of (n + 32) else c)"

definition lower :: "string \<Rightarrow> string" where
  "lower s = map lower_char s"

text \<open>\<^verbatim>\<open>bytes.strip()\<close>: leading and trailing ASCII whitespace is removed.\<close>

definition is_space :: "char \<Rightarrow> bool" where
  "is_space c = (c \<in> set [CHR 0x20, CHR 0x09, CHR 0x0A, CHR 0x0B, CHR 0x0C, CHR 0x0D])"

definition strip :: "string \<Rightarrow> string" where
  "strip s = rev (dropWhile is_space (rev (dropWhile is_space s)))"

text \<open>Decimal text of an integer, as \<^verbatim>\<open>str(n)\<close> and \<^verbatim>\<open>f"{n}"\<close> give it.\<close>

definition digit_char :: "nat \<Rightarrow> char" where
  "digit_char d = ''0123456789'' ! d"

fun digits :: "nat \<Rightarrow> string" where
  "digits n = (if n < 10 then [digit_char n] else digits (n div 10) @ [digit_char (n mod 10)])"

declare digits.simps [simp del]

definition str_int :: "int \<Rightarrow> string" where
  "str_int n = (if n < 0 then CHR ''-'' # digits (nat (- n)) else digits (nat n))"

text \<open>\<^verbatim>\<open>f"{n:05d}"\<close>: zero padding to width five, the sign counted in the width.\<close>

definition format_05d :: "int \<Rightarrow> string" where
  "format_05d n =
     (let sign = (if n < 0 then ''-'' else ''''); ds = digits (nat \<bar>n\<bar>)
      in sign @ replicate (5 - length sign - length ds) CHR ''0'' @ ds)"

text \<open>
  \<^verbatim>\<open>prepare_notebook\<close> formats its \<^verbatim>\<open>exp\<close> and \<^verbatim>\<open>iteration\<close> arguments with
  \<^verbatim>\<open>f"{exp}"\<close>. The signature says \<^verbatim>\<open>int\<close>; \<^verbatim>\<open>main\<close> passes the lists
  \<^verbatim>\<open>args.exp\<close> and \<^verbatim>\<open>args.iteration\<close>. Both shapes are values of \<open>pyval\<close>.
\<close>

datatype pyval = PyInt int | PyIntList "int list"

fun format_py :: "pyval \<Rightarrow> string" where
  "format_py (PyInt n) = str_int n"
| "format_py (PyIntList ns) = ''['' @ join '', '' (map str_int ns) @ '']''"

text \<open>\<^verbatim>\<open>f"'{s}'"\<close>: the text between single quotes.\<close>

definition quoted :: "string \<Rightarrow> string" where
  "quoted s = [CHR 0x27] @ s @ [CHR 0x27]"

text \<open>\<^verbatim>\<open>os.path.join(a, b)\<close> on POSIX paths.\<close>

definition os_path_join :: "string \<Rightarrow> string \<Rightarrow> string" where
  "os_path_join a b =
     (if b \<noteq> [] \<and> hd b = CHR ''/'' then b
      else if a = [] \<or> last a = CHR ''/'' then a @ b
      else a @ ''/'' @ b)"

subsection \<open>Template substitution\<close>

text \<open>The marker \<^verbatim>\<open>f"!!!{expr}!!!"\<close>.\<close>

definition placeholder :: "string \<Rightarrow> string" where
  "placeholder expr = ''!!!'' @ expr @ ''!!!''"

text \<open>
  The body of the loop over \<^verbatim>\<open>enumerate(template_nb)\<close> for one line \<open>li\<close>: the
  expressions are taken in order; the test looks at the line as it was read, the replacement
  works on the line as it is by then.
\<close>

definition substitute_line :: "(string \<times> string) list \<Rightarrow> string \<Rightarrow> string" where
  "substitute_line expressions li =
     foldl (\<lambda>cur (expr, expr_replace).
              if str_contains (placeholder expr) li
              then str_replace (placeholder expr) expr_replace cur else cur)
       li expressions"


text \<open>Some marker of \<open>ks\<close> begins the text.\<close>

definition marker_at :: "string list \<Rightarrow> string \<Rightarrow> bool" where
  "marker_at ks s = list_ex (\<lambda>k. prefix (placeholder k) s) ks"

text \<open>No marker of \<open>ks\<close> begins at any of the first \<open>n\<close> positions of the text.\<close>

fun no_marker_within :: "string list \<Rightarrow> nat \<Rightarrow> string \<Rightarrow> bool" where
  "no_marker_within ks 0 s = True"
| "no_marker_within ks (Suc n) [] = True"
| "no_marker_within ks (Suc n) (c # cs) = (\<not> marker_at ks (c # cs) \<and> no_marker_within ks n cs)"

text \<open>
  No marker of \<open>ks\<close> begins strictly inside another marker of \<open>ks\<close> anywhere in the line
  (as \<^verbatim>\<open>!!!iteration!!!exp!!!\<close> would have it).
\<close>

fun separated :: "string list \<Rightarrow> string \<Rightarrow> bool" where
  "separated ks [] = True"
| "separated ks (c # cs) =
     (list_all (\<lambda>k. if prefix (placeholder k) (c # cs)
                     then no_marker_within ks (length (placeholder k) - 1) cs else True) ks
      \<and> separated ks cs)"


subsection \<open>Exceptions, events and the environment\<close>

datatype error =
    CalledProcessError
  | NotImplementedError
  | AssertionError string
  | KeyError "string option"
  | ArgumentError string
  | Raised string

text \<open>A Python dict with string keys and values, in insertion order.\<close>

type_synonym kaggle_user = "(string \<times> string) list"

datatype jvalue = JStr string | JList "string list"

type_synonym config = "(string \<times> jvalue) list"

text \<open>
  The calls that leave the program, with their arguments. \<open>Makedirs\<close> stands for
  \<^verbatim>\<open>os.makedirs(p, exist_ok=True)\<close>, \<open>Rmtree\<close> for
  \<^verbatim>\<open>shutil.rmtree(p, ignore_errors=True)\<close>, \<open>Open_read\<close> and \<open>Open_write\<close> for
  \<^verbatim>\<open>open(p)\<close> and \<^verbatim>\<open>open(p, "w")\<close>, \<open>Json_dump\<close> for
  \<^verbatim>\<open>json.dump(config, f, indent=4)\<close> on the file opened at the path.
\<close>

datatype event =
    Check_output "string list"
  | Parse_args "string list"
  | Load_config kaggle_user
  | Makedirs string
  | Kernels_output_cli string string
  | Subprocess_run "string list"
  | Rmtree string
  | Open_read string
  | Readlines string
  | Open_write string
  | Write string string
  | Path_exists string
  | Json_dump string config
  | Kernels_push_cli string

text \<open>
  The parser: its description, whether it has the \<^verbatim>\<open>-h/--help\<close> option that
  \<^verbatim>\<open>argparse.ArgumentParser\<close> adds by itself (\<^verbatim>\<open>add_help\<close>, on unless the
  constructor is told otherwise), and the \<^verbatim>\<open>add_argument\<close> calls it has received.
\<close>

datatype action = Store | Store_true

record argument =
  flags :: "string list"
  arg_type :: "string option"
  help_text :: string
  default_value :: "string option"
  choices :: "string list option"
  arg_action :: action

record parser =
  description :: string
  add_help :: bool
  arguments :: "argument list"

text \<open>
  The namespace \<^verbatim>\<open>parse_args\<close> returns. The first six attributes come from
  \<^verbatim>\<open>init_parser\<close>; \<^verbatim>\<open>exp\<close>, \<^verbatim>\<open>iteration\<close>, \<^verbatim>\<open>full\<close>, \<^verbatim>\<open>learning\<close> and
  \<^verbatim>\<open>testing\<close> are the ones \<^verbatim>\<open>main\<close> reads that \<^verbatim>\<open>get_parser\<close> of
  \<^verbatim>\<open>src.pipeline.train\<close> declares, typed by their use in \<^verbatim>\<open>main\<close>.
\<close>

record args =
  notebook_id :: string
  user :: "string option"
  branch :: string
  cpu :: bool
  push :: bool
  download :: bool
  exp :: "int list"
  iteration :: "int list"
  full :: bool
  learning :: bool
  testing :: bool

text \<open>The module \<^verbatim>\<open>src.configs.constants\<close>, of which the script reads six names.\<close>

record constants =
  NOTEBOOK_ID :: string
  REMOTE_TRAINING_FOLDER :: string
  OUTPUT_FOLDER :: string
  KAGGLE_DATASET_LIST :: "string list"
  GIT_USER :: "string option"
  GIT_REPO :: "string option"

text \<open>
  Everything the script takes from outside: the constants module, the table
  \<^verbatim>\<open>kaggle_users\<close> of \<^verbatim>\<open>remote_training.__kaggle_login\<close>, \<^verbatim>\<open>get_parser\<close> (the
  parser as that call leaves it, or the exception it raises), and the behaviour of the
  external calls: \<open>fails\<close> says whether an event raises, given the log before it; the
  \<open>_result\<close> fields give what a call that does not raise returns. \<open>decode\<close> is
  \<^verbatim>\<open>bytes.decode()\<close> and \<open>repr\<close> is \<^verbatim>\<open>repr\<close> of a list element.
\<close>

record env =
  constants :: constants
  kaggle_users :: "(string \<times> kaggle_user) list"
  get_parser :: "parser \<Rightarrow> error + parser"
  fails :: "event list \<Rightarrow> event \<Rightarrow> error option"
  check_output_result :: "event list \<Rightarrow> string list \<Rightarrow> string"
  decode :: "string \<Rightarrow> error + string"
  parse_args_result :: "event list \<Rightarrow> parser \<Rightarrow> string list \<Rightarrow> args"
  readlines_result :: "event list \<Rightarrow> string \<Rightarrow> string list"
  path_exists_result :: "event list \<Rightarrow> string \<Rightarrow> bool"
  repr :: "string \<Rightarrow> string"

text \<open>A computation takes the log and returns its result, or its exception, and the new log.\<close>

type_synonym 'a io = "event list \<Rightarrow> (error + 'a) \<times> event list"

definition io_return :: "'a \<Rightarrow> 'a io" where
  "io_return x = (\<lambda>log. (Inr x, log))"

definition io_raise :: "error \<Rightarrow> 'a io" where
  "io_raise e = (\<lambda>log. (Inl e, log))"

definition io_bind :: "'a io \<Rightarrow> ('a \<Rightarrow> 'b io) \<Rightarrow> 'b io" where
  "io_bind m f =
     (\<lambda>log. case m log of (Inl e, log') \<Rightarrow> (Inl e, log') | (Inr x, log') \<Rightarrow> f x log')"

definition lift :: "error + 'a \<Rightarrow> 'a io" where
  "lift r = (\<lambda>log. (r, log))"

text \<open>An external call: the event is logged, then it raises or returns.\<close>

definition call :: "env \<Rightarrow> event \<Rightarrow> (event list \<Rightarrow> 'a) \<Rightarrow> 'a io" where
  "call env ev result =
     (\<lambda>log. case fails env log ev of
               Some e \<Rightarrow> (Inl e, log @ [ev])
             | None \<Rightarrow> (Inr (result log), log @ [ev]))"

definition call_unit :: "env \<Rightarrow> event \<Rightarrow> unit io" where
  "call_unit env ev = call env ev (\<lambda>_. ())"

text \<open>\<^verbatim>\<open>d[k]\<close> on a dict with string keys.\<close>

definition getitem :: "(string \<times> 'v) list \<Rightarrow> string \<Rightarrow> error + 'v" where
  "getitem d k = (case map_of d k of None \<Rightarrow> Inl (KeyError (Some k)) | Some v \<Rightarrow> Inr v)"

subsection \<open>\<^verbatim>\<open>get_git_branch_name\<close>\<close>

definition git_command :: "string list" where
  "git_command = [''git'', ''branch'', ''--show-current'']"

definition branch_error :: string where
  "branch_error = ''Error: Could not determine the Git branch name.''"

text \<open>
  The \<^verbatim>\<open>try\<close> block runs the git command, strips and decodes its output; the handler
  turns \<^verbatim>\<open>CalledProcessError\<close>, and nothing else, into the fixed text.
\<close>

definition get_git_branch_name :: "env \<Rightarrow> string io" where
  "get_git_branch_name env =
     (\<lambda>log. case io_bind (call env (Check_output git_command)
                              (\<lambda>l. check_output_result env l git_command))
                    (\<lambda>out. lift (decode env (strip out))) log of
               (Inl CalledProcessError, log') \<Rightarrow> (Inr branch_error, log')
             | r \<Rightarrow> r)"

subsection \<open>\<^verbatim>\<open>init_parser\<close>\<close>

text \<open>The option strings a parser answers to.\<close>

definition option_strings :: "parser \<Rightarrow> string list" where
  "option_strings p =
     (if add_help p then [''-h'', ''--help''] else []) @ concat (map flags (arguments p))"

text \<open>
  \<^verbatim>\<open>parser.add_argument\<close>: argparse refuses an option string the parser already has.
\<close>

definition add_argument :: "parser \<Rightarrow> argument \<Rightarrow> error + parser" where
  "add_argument p a =
     (case find (\<lambda>f. f \<in> set (option_strings p)) (flags a) of
        Some f \<Rightarrow> Inl (ArgumentError f)
      | None \<Rightarrow> Inr (p\<lparr>arguments := arguments p @ [a]\<rparr>))"

definition notebook_flag :: "env \<Rightarrow> argument" where
  "notebook_flag env =
     \<lparr>flags = [''-n'', ''--notebook_id''], arg_type = Some ''str'',
      help_text = ''Notebook name in kaggle'',
      default_value = Some (NOTEBOOK_ID (constants env)), choices = None, arg_action = Store\<rparr>"

definition user_flag :: "env \<Rightarrow> argument" where
  "user_flag env =
     \<lparr>flags = [''-u'', ''--user''], arg_type = Some ''str'', help_text = ''Kaggle user'',
      default_value = None, choices = Some (map fst (kaggle_users env)), arg_action = Store\<rparr>"

definition branch_flag :: "string \<Rightarrow> argument" where
  "branch_flag b =
     \<lparr>flags = [''--branch''], arg_type = Some ''str'', help_text = ''Git branch name'',
      default_value = Some b, choices = None, arg_action = Store\<rparr>"

definition cpu_flag :: argument where
  "cpu_flag =
     \<lparr>flags = [''--cpu''], arg_type = None, help_text = ''Force CPU'',
      default_value = None, choices = None, arg_action = Store_true\<rparr>"

definition push_flag :: argument where
  "push_flag =
     \<lparr>flags = [''-p'', ''--push''], arg_type = None, help_text = ''Push'',
      default_value = None, choices = None, arg_action = Store_true\<rparr>"

definition download_flag :: argument where
  "download_flag =
     \<lparr>flags = [''-d'', ''--download''], arg_type = None, help_text = ''Download results'',
      default_value = None, choices = None, arg_action = Store_true\<rparr>"

definition init_parser :: "env \<Rightarrow> parser option \<Rightarrow> parser io" where
  "init_parser env parser_opt =
     (let parser0 = (case parser_opt of
                       None \<Rightarrow> \<lparr>description = ''Train a model on Kaggle using a script'',
                                 add_help = True, arguments = []\<rparr>
                     | Some p \<Rightarrow> p)
      in io_bind (lift (add_argument parser0 (notebook_flag env))) (\<lambda>parser1.
         io_bind (lift (add_argument parser1 (user_flag env))) (\<lambda>parser2.
         io_bind (get_git_branch_name env) (\<lambda>b.
         io_bind (lift (add_argument parser2 (branch_flag b))) (\<lambda>parser3.
         io_bind (lift (add_argument parser3 cpu_flag)) (\<lambda>parser4.
         io_bind (lift (add_argument parser4 push_flag)) (\<lambda>parser5.
         lift (add_argument parser5 download_flag))))))))"

subsection \<open>\<^verbatim>\<open>prepare_notebook\<close>\<close>

text \<open>The local list \<^verbatim>\<open>expressions\<close>.\<close>

definition expressions ::
  "env \<Rightarrow> pyval \<Rightarrow> pyval \<Rightarrow> string \<Rightarrow> string \<Rightarrow> string \<Rightarrow> string \<Rightarrow> string option \<Rightarrow>
   string list option \<Rightarrow> (string \<times> string) list" where
  "expressions env exp' iteration' branch' git_user git_repo pipeline output_dir dataset_files =
     [(''exp'', format_py exp'),
      (''iteration'', format_py iteration'),
      (''branch'', quoted branch'),
      (''git_user'', quoted git_user),
      (''git_repo'', quoted git_repo),
      (''pipeline'', quoted pipeline),
      (''output_dir'', case output_dir of None \<Rightarrow> ''None'' | Some d \<Rightarrow> quoted d),
      (''dataset_files'',
         case dataset_files of
           None \<Rightarrow> ''None''
         | Some fs \<Rightarrow> ''['' @ join '', '' (map (repr env) fs) @ '']'')]"

definition prepare_notebook ::
  "env \<Rightarrow> string \<Rightarrow> pyval \<Rightarrow> pyval \<Rightarrow> string \<Rightarrow> string option \<Rightarrow> string option \<Rightarrow> string \<Rightarrow>
   string \<Rightarrow> string option \<Rightarrow> string list option \<Rightarrow> unit io" where
  "prepare_notebook env output_nb_path exp' iteration' branch' git_user git_repo pipeline
       template_nb_path output_dir dataset_files =
     (case git_user of
        None \<Rightarrow> io_raise (AssertionError ''Please provide a git username for the repo'')
      | Some git_user' \<Rightarrow>
     (case git_repo of
        None \<Rightarrow> io_raise (AssertionError ''Please provide a git repo name for the repo'')
      | Some git_repo' \<Rightarrow>
          io_bind (call_unit env (Open_read template_nb_path)) (\<lambda>_.
          io_bind (call env (Readlines template_nb_path)
                     (\<lambda>log. readlines_result env log template_nb_path)) (\<lambda>template_nb.
          io_bind (call_unit env (Open_write output_nb_path)) (\<lambda>_.
          call_unit env
            (Write output_nb_path
               (concat (map (substitute_line
                               (expressions env exp' iteration' branch' git_user' git_repo'
                                  pipeline output_dir dataset_files))
                          template_nb))))))))"

subsection \<open>\<^verbatim>\<open>define_config\<close>\<close>

definition define_config :: "env \<Rightarrow> args \<Rightarrow> kaggle_user \<Rightarrow> string \<Rightarrow> string \<Rightarrow> error + config" where
  "define_config env a kaggle_user exp_str notebook_id' =
     (case getitem kaggle_user ''username'' of
        Inl e \<Rightarrow> Inl e
      | Inr username \<Rightarrow>
          Inr [(''id'', JStr (username @ ''/'' @ exp_str)),
               (''title'', JStr (lower notebook_id')),
               (''code_file'', JStr (notebook_id' @ ''.ipynb'')),
               (''language'', JStr ''python''),
               (''kernel_type'', JStr ''notebook''),
               (''is_private'', JStr ''true''),
               (''enable_gpu'', JStr (if \<not> cpu a then ''true'' else ''false'')),
               (''enable_tpu'', JStr ''false''),
               (''enable_internet'', JStr ''true''),
               (''full_pipeline'', JStr (if full a then ''true'' else ''false'')),
               (''learning_pipeline'', JStr (if learning a then ''true'' else ''false'')),
               (''testing_pipeline'', JStr (if testing a then ''true'' else ''false'')),
               (''dataset_sources'', JList (KAGGLE_DATASET_LIST (constants env))),
               (''competition_sources'', JList []),
               (''kernel_sources'', JList []),
               (''model_sources'', JList [])])"

subsection \<open>\<^verbatim>\<open>main\<close>\<close>

text \<open>\<^verbatim>\<open>kaggle_users[args.user]\<close>; \<^verbatim>\<open>args.user\<close> is \<^verbatim>\<open>None\<close> when the flag is absent.\<close>

definition lookup_user :: "env \<Rightarrow> string option \<Rightarrow> error + kaggle_user" where
  "lookup_user env u =
     (case u of None \<Rightarrow> Inl (KeyError None) | Some name \<Rightarrow> getitem (kaggle_users env) name)"

definition main :: "env \<Rightarrow> string list \<Rightarrow> unit io" where
  "main env argv =
     io_bind (init_parser env None) (\<lambda>parser0.
     io_bind (lift (get_parser env parser0)) (\<lambda>parser1.
     io_bind (call env (Parse_args argv) (\<lambda>log. parse_args_result env log parser1 argv)) (\<lambda>a.
     let notebook_id' = notebook_id a;
         exp_str = join ''_'' (map format_05d (exp a));
         iteration_str = join ''_'' (map format_05d (iteration a))
     in
     io_bind (if full a then io_return ''full''
              else if learning a then io_return ''learning''
              else if testing a then io_return ''testing''
              else io_raise NotImplementedError) (\<lambda>pipeline.
     io_bind (lift (lookup_user env (user a))) (\<lambda>kaggle_user.
     io_bind (lift (getitem kaggle_user ''username'')) (\<lambda>uname_kaggle.
     io_bind (call_unit env (Load_config kaggle_user)) (\<lambda>_.
     if download a then
       (let tmp_dir = ''__tmp_'' @ exp_str @ ''_'' @ iteration_str
        in
        io_bind (call_unit env (Makedirs tmp_dir)) (\<lambda>_.
        io_bind (lift (getitem kaggle_user ''username'')) (\<lambda>username.
        io_bind (call_unit env (Kernels_output_cli (username @ ''/'' @ notebook_id') tmp_dir)) (\<lambda>_.
        io_bind (call_unit env
                   (Subprocess_run [''tar'', ''-xzf'', tmp_dir @ ''/output.tgz'',
                                    OUTPUT_FOLDER (constants env)])) (\<lambda>_.
        call_unit env (Rmtree tmp_dir))))))
     else
       (let kernel_root = ''__nb_'' @ uname_kaggle;
            kernel_path = kernel_root @ ''/'' @ exp_str
        in
        io_bind (call_unit env (Makedirs kernel_path)) (\<lambda>_.
        io_bind (lift (define_config env a kaggle_user exp_str notebook_id')) (\<lambda>config.
        io_bind (prepare_notebook env (kernel_path @ ''/'' @ notebook_id' @ ''.ipynb'')
                   (PyIntList (exp a)) (PyIntList (iteration a)) (branch a)
                   (GIT_USER (constants env)) (GIT_REPO (constants env)) pipeline
                   (os_path_join (REMOTE_TRAINING_FOLDER (constants env)) ''remote_training.ipynb'')
                   (Some (OUTPUT_FOLDER (constants env))) None) (\<lambda>_.
        io_bind (call env (Path_exists (kernel_path @ ''/'' @ notebook_id' @ ''.ipynb''))
                   (\<lambda>log. path_exists_result env log
                             (kernel_path @ ''/'' @ notebook_id' @ ''.ipynb''))) (\<lambda>ex.
        io_bind (if ex then io_return () else io_raise (AssertionError [])) (\<lambda>_.
        io_bind (call_unit env (Open_write (kernel_path @ ''/kernel-metadata.json''))) (\<lambda>_.
        io_bind (call_unit env (Json_dump (kernel_path @ ''/kernel-metadata.json'') config)) (\<lambda>_.
        if push a then call_unit env (Kernels_push_cli kernel_path)
        else io_return ())))))))))))))))"

subsection \<open>The two halves of \<^verbatim>\<open>main\<close>\<close>

text \<open>
  The first three statements of \<^verbatim>\<open>main\<close> (\<^verbatim>\<open># Get parser arguments\<close>) on their own:
  they yield the namespace the rest of \<^verbatim>\<open>main\<close> works with.
\<close>

definition parse_cli :: "env \<Rightarrow> string list \<Rightarrow> args io" where
  "parse_cli env argv =
     io_bind (init_parser env None) (\<lambda>parser0.
     io_bind (lift (get_parser env parser0)) (\<lambda>parser1.
     call env (Parse_args argv) (\<lambda>log. parse_args_result env log parser1 argv)))"

text \<open>
  The statements of \<^verbatim>\<open>main\<close> after the parsing, as a computation of their own on the
  namespace: \<^verbatim>\<open>main\<close> is \<open>parse_cli\<close> followed by \<open>run_args\<close> (lemma \<open>main_eq\<close>).
\<close>

definition run_args :: "env \<Rightarrow> args \<Rightarrow> unit io" where
  "run_args env a =
     (let notebook_id' = notebook_id a;
          exp_str = join ''_'' (map format_05d (exp a));
          iteration_str = join ''_'' (map format_05d (iteration a))
      in
      io_bind (if full a then io_return ''full''
               else if learning a then io_return ''learning''
               else if testing a then io_return ''testing''
               else io_raise NotImplementedError) (\<lambda>pipeline.
      io_bind (lift (lookup_user env (user a))) (\<lambda>kaggle_user.
      io_bind (lift (getitem kaggle_user ''username'')) (\<lambda>uname_kaggle.
      io_bind (call_unit env (Load_config kaggle_user)) (\<lambda>_.
      if download a then
        (let tmp_dir = ''__tmp_'' @ exp_str @ ''_'' @ iteration_str
         in
         io_bind (call_unit env (Makedirs tmp_dir)) (\<lambda>_.
         io_bind (lift (getitem kaggle_user ''username'')) (\<lambda>username.
         io_bind (call_unit env (Kernels_output_cli (username @ ''/'' @ notebook_id') tmp_dir)) (\<lambda>_.
         io_bind (call_unit env
                    (Subprocess_run [''tar'', ''-xzf'', tmp_dir @ ''/output.tgz'',
                                     OUTPUT_FOLDER (constants env)])) (\<lambda>_.
         call_unit env (Rmtree tmp_dir))))))
      else
        (let kernel_root = ''__nb_'' @ uname_kaggle;
             kernel_path = kernel_root @ ''/'' @ exp_str
         in
         io_bind (call_unit env (Makedirs kernel_path)) (\<lambda>_.
         io_bind (lift (define_config env a kaggle_user exp_str notebook_id')) (\<lambda>config.
         io_bind (prepare_notebook env (kernel_path @ ''/'' @ notebook_id' @ ''.ipynb'')
                    (PyIntList (exp a)) (PyIntList (iteration a)) (branch a)
                    (GIT_USER (constants env)) (GIT_REPO (constants env)) pipeline
                    (os_path_join (REMOTE_TRAINING_FOLDER (constants env)) ''remote_training.ipynb'')
                    (Some (OUTPUT_FOLDER (constants env))) None) (\<lambda>_.
         io_bind (call env (Path_exists (kernel_path @ ''/'' @ notebook_id' @ ''.ipynb''))
                    (\<lambda>log. path_exists_result env log
                              (kernel_path @ ''/'' @ notebook_id' @ ''.ipynb''))) (\<lambda>ex.
         io_bind (if ex then io_return () else io_raise (AssertionError [])) (\<lambda>_.
         io_bind (call_unit env (Open_write (kernel_path @ ''/kernel-metadata.json''))) (\<lambda>_.
         io_bind (call_unit env (Json_dump (kernel_path @ ''/kernel-metadata.json'') config)) (\<lambda>_.
         if push a then call_unit env (Kernels_push_cli kernel_path)
         else io_return ())))))))))))))"

text \<open>The \<^verbatim>\<open>if\<close>/\<^verbatim>\<open>elif\<close> chain that names the pipeline.\<close>

definition pipeline_of :: "args \<Rightarrow> string" where
  "pipeline_of a = (if full a then ''full'' else if learning a then ''learning'' else ''testing'')"

text \<open>The names \<^verbatim>\<open>main\<close> builds from the namespace.\<close>

definition exp_str_of :: "args \<Rightarrow> string" where
  "exp_str_of a = join ''_'' (map format_05d (exp a))"

definition iteration_str_of :: "args \<Rightarrow> string" where
  "iteration_str_of a = join ''_'' (map format_05d (iteration a))"

definition tmp_dir_of :: "args \<Rightarrow> string" where
  "tmp_dir_of a = ''__tmp_'' @ exp_str_of a @ ''_'' @ iteration_str_of a"

definition kernel_path_of :: "args \<Rightarrow> string \<Rightarrow> string" where
  "kernel_path_of a uname = ''__nb_'' @ uname @ ''/'' @ exp_str_of a"

definition notebook_path_of :: "args \<Rightarrow> string \<Rightarrow> string" where
  "notebook_path_of a uname = kernel_path_of a uname @ ''/'' @ notebook_id a @ ''.ipynb''"

definition metadata_path_of :: "args \<Rightarrow> string \<Rightarrow> string" where
  "metadata_path_of a uname = kernel_path_of a uname @ ''/kernel-metadata.json''"

definition template_path_of :: "env \<Rightarrow> string" where
  "template_path_of env =
     os_path_join (REMOTE_TRAINING_FOLDER (constants env)) ''remote_training.ipynb''"

text \<open>
  The external calls of a run that downloads, and of a run that launches, in the order of
  the source, when none of them raises. \<open>log0\<close> is the log when parsing is over.
\<close>

definition download_plan :: "env \<Rightarrow> args \<Rightarrow> kaggle_user \<Rightarrow> string \<Rightarrow> event list" where
  "download_plan env a ku uname =
     [Load_config ku,
      Makedirs (tmp_dir_of a),
      Kernels_output_cli (uname @ ''/'' @ notebook_id a) (tmp_dir_of a),
      Subprocess_run [''tar'', ''-xzf'', tmp_dir_of a @ ''/output.tgz'',
                      OUTPUT_FOLDER (constants env)],
      Rmtree (tmp_dir_of a)]"

definition notebook_text ::
  "env \<Rightarrow> args \<Rightarrow> event list \<Rightarrow> kaggle_user \<Rightarrow> string \<Rightarrow> string \<Rightarrow> string \<Rightarrow> string" where
  "notebook_text env a log0 ku uname gu gr =
     concat (map (substitute_line
                    (expressions env (PyIntList (exp a)) (PyIntList (iteration a)) (branch a)
                       gu gr (pipeline_of a) (Some (OUTPUT_FOLDER (constants env))) None))
               (readlines_result env
                  (log0 @ [Load_config ku, Makedirs (kernel_path_of a uname),
                           Open_read (template_path_of env)])
                  (template_path_of env)))"

definition launch_plan ::
  "env \<Rightarrow> args \<Rightarrow> event list \<Rightarrow> kaggle_user \<Rightarrow> string \<Rightarrow> string \<Rightarrow> string \<Rightarrow> config \<Rightarrow>
   event list" where
  "launch_plan env a log0 ku uname gu gr cfg =
     [Load_config ku,
      Makedirs (kernel_path_of a uname),
      Open_read (template_path_of env),
      Readlines (template_path_of env),
      Open_write (notebook_path_of a uname),
      Write (notebook_path_of a uname) (notebook_text env a log0 ku uname gu gr),
      Path_exists (notebook_path_of a uname),
      Open_write (metadata_path_of a uname),
      Json_dump (metadata_path_of a uname) cfg]
     @ (if push a then [Kernels_push_cli (kernel_path_of a uname)] else [])"

text \<open>The calls that open a file for writing or write to it.\<close>

fun is_write :: "event \<Rightarrow> bool" where
  "is_write (Open_write p) = True"
| "is_write (Write p c) = True"
| "is_write (Json_dump p cfg) = True"
| "is_write ev = False"

fun is_push :: "event \<Rightarrow> bool" where
  "is_push (Kernels_push_cli p) = True"
| "is_push ev = False"

text \<open>The one failure the program handles: the git command ending in \<^verbatim>\<open>CalledProcessError\<close>.\<close>

definition handled :: "event \<Rightarrow> error \<Rightarrow> bool" where
  "handled ev e = (ev = Check_output git_command \<and> e = CalledProcessError)"

text \<open>
  A computation lets every failure of an external call through, the handled one apart: the
  call that failed is the last one, and the computation ends with its exception.
\<close>

definition propagates :: "env \<Rightarrow> 'a io \<Rightarrow> bool" where
  "propagates env m =
     (\<forall>log r log'. m log = (r, log') \<longrightarrow>
        (\<exists>new. log' = log @ new \<and>
           (\<forall>i<length new. \<forall>e. fails env (log @ take i new) (new ! i) = Some e \<longrightarrow>
               \<not> handled (new ! i) e \<longrightarrow> r = Inl e \<and> Suc i = length new)))"

text \<open>
  A computation started at \<open>log\<close> performs a beginning of the planned calls, and all of them
  when it returns.
\<close>

definition follows :: "'a io \<Rightarrow> event list \<Rightarrow> event list \<Rightarrow> bool" where
  "follows m log plan =
     (case m log of
        (r, log') \<Rightarrow> \<exists>new. log' = log @ new \<and> prefix new plan \<and> (\<forall>x. r = Inr x \<longrightarrow> new = plan))"

text \<open>None of the calls \<open>evs\<close>, made one after the other from the log \<open>log\<close>, raises.\<close>

fun quiet :: "env \<Rightarrow> event list \<Rightarrow> event list \<Rightarrow> bool" where
  "quiet env log [] = True"
| "quiet env log (ev # evs) = (fails env log ev = None \<and> quiet env (log @ [ev]) evs)"



subsection \<open>Concrete environments\<close>

definition demo_constants :: constants where
  "demo_constants =
     \<lparr>NOTEBOOK_ID = ''Remote-Training'', REMOTE_TRAINING_FOLDER = ''remote_training'',
      OUTPUT_FOLDER = ''__output'', KAGGLE_DATASET_LIST = [''alice/data''],
      GIT_USER = Some ''alice'', GIT_REPO = Some ''nlp''\<rparr>"

definition demo_args :: args where
  "demo_args =
     \<lparr>notebook_id = ''Remote-Training'', user = Some ''alice'', branch = ''main'',
      cpu = False, push = True, download = False, exp = [1], iteration = [2],
      full = True, learning = False, testing = False\<rparr>"

definition demo_template :: "string list" where
  "demo_template =
     [''exp = !!!exp!!!'' @ [CHR 0x0A],
      ''branch = !!!branch!!!; user = !!!git_user!!!'' @ [CHR 0x0A],
      ''!echo done'']"

text \<open>An environment in which no call raises and git prints \<^verbatim>\<open>main\<close>.\<close>

definition demo_env :: env where
  "demo_env =
     \<lparr>constants = demo_constants,
      kaggle_users = [(''alice'', [(''username'', ''alice_k''), (''key'', ''0000'')])],
      get_parser = Inr,
      fails = (\<lambda>log ev. None),
      check_output_result = (\<lambda>log cmd. ''main'' @ [CHR 0x0A]),
      decode = Inr,
      parse_args_result = (\<lambda>log p argv. demo_args),
      readlines_result = (\<lambda>log p. demo_template),
      path_exists_result = (\<lambda>log p. True),
      repr = quoted\<rparr>"

text \<open>The same with a git command that ends in \<^verbatim>\<open>CalledProcessError\<close>.\<close>

definition no_git_env :: env where
  "no_git_env =
     demo_env\<lparr>fails := (\<lambda>log ev. if ev = Check_output git_command
                                  then Some CalledProcessError else None)\<rparr>"

text \<open>The same with a hosted platform that refuses the push.\<close>

definition no_push_env :: env where
  "no_push_env =
     demo_env\<lparr>fails := (\<lambda>log ev. if is_push ev then Some (Raised ''ApiException'') else None)\<rparr>"

text \<open>
  The same as \<open>demo_env\<close> with a git output that cannot be decoded, and with a notebook that
  is not there after it was written.
\<close>

definition no_decode_env :: env where
  "no_decode_env = demo_env\<lparr>decode := (\<lambda>s. Inl (Raised ''UnicodeDecodeError''))\<rparr>"

definition no_file_env :: env where
  "no_file_env = demo_env\<lparr>path_exists_result := (\<lambda>log p. False)\<rparr>"

text \<open>Namespaces that ask for a download, and for no pipeline at all.\<close>

definition download_env :: env where
  "download_env = demo_env\<lparr>parse_args_result := (\<lambda>log p argv. demo_args\<lparr>download := True\<rparr>)\<rparr>"

definition no_pipeline_env :: env where
  "no_pipeline_env = demo_env\<lparr>parse_args_result := (\<lambda>log p argv. demo_args\<lparr>full := False\<rparr>)\<rparr>"


text \<open>What the runs in these environments are expected to do.\<close>

definition demo_config :: config where
  "demo_config =
     [(''id'', JStr ''alice_k/00001''),
      (''title'', JStr ''remote-training''),
      (''code_file'', JStr ''Remote-Training.ipynb''),
      (''language'', JStr ''python''),
      (''kernel_type'', JStr ''notebook''),
      (''is_private'', JStr ''true''),
      (''enable_gpu'', JStr ''true''),
      (''enable_tpu'', JStr ''false''),
      (''enable_internet'', JStr ''true''),
      (''full_pipeline'', JStr ''true''),
      (''learning_pipeline'', JStr ''false''),
      (''testing_pipeline'', JStr ''false''),
      (''dataset_sources'', JList [''alice/data'']),
      (''competition_sources'', JList []),
      (''kernel_sources'', JList []),
      (''model_sources'', JList [])]"

definition demo_user :: kaggle_user where
  "demo_user = [(''username'', ''alice_k''), (''key'', ''0000'')]"

definition demo_text :: string where
  "demo_text =
     ''exp = [1]'' @ [CHR 0x0A] @
     ''branch = '' @ quoted ''main'' @ ''; user = '' @ quoted ''alice'' @ [CHR 0x0A] @
     ''!echo done''"

definition demo_trace :: "event list" where
  "demo_trace =
     [Check_output git_command,
      Parse_args [],
      Load_config demo_user,
      Makedirs ''__nb_alice_k/00001'',
      Open_read ''remote_training/remote_training.ipynb'',
      Readlines ''remote_training/remote_training.ipynb'',
      Open_write ''__nb_alice_k/00001/Remote-Training.ipynb'',
      Write ''__nb_alice_k/00001/Remote-Training.ipynb'' demo_text,
      Path_exists ''__nb_alice_k/00001/Remote-Training.ipynb'',
      Open_write ''__nb_alice_k/00001/kernel-metadata.json'',
      Json_dump ''__nb_alice_k/00001/kernel-metadata.json'' demo_config,
      Kernels_push_cli ''__nb_alice_k/00001'']"

definition download_trace :: "event list" where
  "download_trace =
     [Check_output git_command,
      Parse_args [],
      Load_config demo_user,
      Makedirs ''__tmp_00001_00002'',
      Kernels_output_cli ''alice_k/Remote-Training'' ''__tmp_00001_00002'',
      Subprocess_run [''tar'', ''-xzf'', ''__tmp_00001_00002/output.tgz'', ''__output''],
      Rmtree ''__tmp_00001_00002'']"

section \<open>Lemmas\<close>

subsection \<open>Sequential replacement against one reading of the line\<close>



lemma marker_at_Nil: "\<not> marker_at ks []"
  by (simp add: marker_at_def list_ex_iff placeholder_def)

lemma no_marker_within_iff:
  "no_marker_within ks n s = (\<forall>i<n. \<not> marker_at ks (drop i s))"
proof (induction ks n s rule: no_marker_within.induct)
  case (1 ks s)
  then show ?case by simp
next
  case (2 ks n)
  then show ?case by (simp add: marker_at_Nil)
next
  case (3 ks n c cs)
  have "(\<forall>i<Suc n. \<not> marker_at ks (drop i (c # cs))) =
        (\<not> marker_at ks (c # cs) \<and> (\<forall>i<n. \<not> marker_at ks (drop i cs)))"
  proof
    assume a: "\<forall>i<Suc n. \<not> marker_at ks (drop i (c # cs))"
    then have "\<not> marker_at ks (drop 0 (c # cs))" by blast
    moreover have "\<forall>i<n. \<not> marker_at ks (drop i cs)"
    proof (intro allI impI)
      fix i assume "i < n"
      then have "Suc i < Suc n" by simp
      with a have "\<not> marker_at ks (drop (Suc i) (c # cs))" by blast
      then show "\<not> marker_at ks (drop i cs)" by simp
    qed
    ultimately show "\<not> marker_at ks (c # cs) \<and> (\<forall>i<n. \<not> marker_at ks (drop i cs))" by simp
  next
    assume b: "\<not> marker_at ks (c # cs) \<and> (\<forall>i<n. \<not> marker_at ks (drop i cs))"
    show "\<forall>i<Suc n. \<not> marker_at ks (drop i (c # cs))"
    proof (intro allI impI)
      fix i assume i: "i < Suc n"
      show "\<not> marker_at ks (drop i (c # cs))"
      proof (cases i)
        case 0
        with b show ?thesis by simp
      next
        case (Suc j)
        with i have "j < n" by simp
        with b Suc show ?thesis by simp
      qed
    qed
  qed
  with "3.IH" show ?case by simp
qed

lemma separated_Cons:
  "separated ks (c # cs) =
     ((\<forall>k\<in>set ks. prefix (placeholder k) (c # cs) \<longrightarrow>
         (\<forall>i\<in>{1..<length (placeholder k)}. \<forall>k'\<in>set ks. \<not> prefix (placeholder k') (drop i (c # cs))))
      \<and> separated ks cs)"
proof -
  have inner: "no_marker_within ks (length (placeholder k) - 1) cs =
      (\<forall>i\<in>{1..<length (placeholder k)}. \<forall>k'\<in>set ks. \<not> prefix (placeholder k') (drop i (c # cs)))"
    for k
  proof
    assume a: "no_marker_within ks (length (placeholder k) - 1) cs"
    show "\<forall>i\<in>{1..<length (placeholder k)}. \<forall>k'\<in>set ks. \<not> prefix (placeholder k') (drop i (c # cs))"
    proof (intro ballI)
      fix i k' assume i: "i \<in> {1..<length (placeholder k)}" and k': "k' \<in> set ks"
      then obtain j where j: "i = Suc j" "j < length (placeholder k) - 1"
        by (cases i) auto
      with a have "\<not> marker_at ks (drop j cs)" by (simp add: no_marker_within_iff)
      with k' j show "\<not> prefix (placeholder k') (drop i (c # cs))"
        by (auto simp: marker_at_def list_ex_iff)
    qed
  next
    assume b: "\<forall>i\<in>{1..<length (placeholder k)}. \<forall>k'\<in>set ks.
                 \<not> prefix (placeholder k') (drop i (c # cs))"
    have "\<forall>j<length (placeholder k) - 1. \<not> marker_at ks (drop j cs)"
    proof (intro allI impI)
      fix j assume "j < length (placeholder k) - 1"
      then have "Suc j \<in> {1..<length (placeholder k)}" by auto
      with b have "\<forall>k'\<in>set ks. \<not> prefix (placeholder k') (drop (Suc j) (c # cs))" by blast
      then show "\<not> marker_at ks (drop j cs)" by (simp add: marker_at_def list_ex_iff)
    qed
    then show "no_marker_within ks (length (placeholder k) - 1) cs"
      by (simp add: no_marker_within_iff)
  qed
  show ?thesis by (simp only: separated.simps list_all_iff inner) simp
qed

declare separated.simps(2) [simp del]

declare separated_Cons [simp]













subsection \<open>The rendered values are clean\<close>




















subsection \<open>Computations\<close>

lemma io_bind_apply:
  "io_bind m f log = (case m log of (Inl e, log') \<Rightarrow> (Inl e, log') | (Inr x, log') \<Rightarrow> f x log')"
  by (simp add: io_bind_def)

lemma io_bind_lift_Inr [simp]: "io_bind (lift (Inr x)) f = f x"
  by (simp add: io_bind_def lift_def)

lemma io_bind_lift_Inl [simp]: "io_bind (lift (Inl e)) f = io_raise e"
  by (simp add: io_bind_def lift_def io_raise_def)

lemma io_bind_return [simp]: "io_bind (io_return x) f = f x"
  by (simp add: io_bind_def io_return_def)

lemma io_bind_raise [simp]: "io_bind (io_raise e) f = io_raise e"
  by (simp add: io_bind_def io_raise_def)

lemma io_bind_assoc: "io_bind (io_bind m f) g = io_bind m (\<lambda>x. io_bind (f x) g)"
  by (auto simp: io_bind_def fun_eq_iff split: prod.splits sum.splits)

subsection \<open>Failures of external calls reach the caller\<close>

lemma propagates_return: "propagates env (io_return x)"
  by (simp add: propagates_def io_return_def)

lemma propagates_raise: "propagates env (io_raise e)"
  by (simp add: propagates_def io_raise_def)

lemma propagates_lift: "propagates env (lift r)"
  by (simp add: propagates_def lift_def)

lemma propagates_call: "propagates env (call env ev res)"
  by (auto simp: propagates_def call_def split: option.splits)

lemma propagates_call_unit: "propagates env (call_unit env ev)"
  by (simp add: call_unit_def propagates_call)

lemma propagates_bind:
  assumes m: "propagates env m" and f: "\<And>x. propagates env (f x)"
  shows "propagates env (io_bind m f)"
  unfolding propagates_def
proof (intro allI impI)
  fix log r log'
  assume run: "io_bind m f log = (r, log')"
  obtain r1 log1 where m1: "m log = (r1, log1)" by (cases "m log")
  from m m1 obtain new1 where n1: "log1 = log @ new1"
    and p1: "\<forall>i<length new1. \<forall>e. fails env (log @ take i new1) (new1 ! i) = Some e \<longrightarrow>
               \<not> handled (new1 ! i) e \<longrightarrow> r1 = Inl e \<and> Suc i = length new1"
    unfolding propagates_def by blast
  show "\<exists>new. log' = log @ new \<and>
           (\<forall>i<length new. \<forall>e. fails env (log @ take i new) (new ! i) = Some e \<longrightarrow>
               \<not> handled (new ! i) e \<longrightarrow> r = Inl e \<and> Suc i = length new)"
  proof (cases r1)
    case (Inl e1)
    with run m1 have "r = Inl e1" "log' = log1" by (simp_all add: io_bind_apply)
    with n1 p1 Inl show ?thesis by blast
  next
    case (Inr x)
    with run m1 have fx: "f x log1 = (r, log')" by (simp add: io_bind_apply)
    from f[of x] fx obtain new2 where n2: "log' = log1 @ new2"
      and p2: "\<forall>i<length new2. \<forall>e. fails env (log1 @ take i new2) (new2 ! i) = Some e \<longrightarrow>
               \<not> handled (new2 ! i) e \<longrightarrow> r = Inl e \<and> Suc i = length new2"
      unfolding propagates_def by blast
    have "\<forall>i<length (new1 @ new2). \<forall>e.
            fails env (log @ take i (new1 @ new2)) ((new1 @ new2) ! i) = Some e \<longrightarrow>
            \<not> handled ((new1 @ new2) ! i) e \<longrightarrow> r = Inl e \<and> Suc i = length (new1 @ new2)"
    proof (intro allI impI)
      fix i e
      assume i: "i < length (new1 @ new2)"
        and fl: "fails env (log @ take i (new1 @ new2)) ((new1 @ new2) ! i) = Some e"
        and nh: "\<not> handled ((new1 @ new2) ! i) e"
      show "r = Inl e \<and> Suc i = length (new1 @ new2)"
      proof (cases "i < length new1")
        case True
        with fl nh have "fails env (log @ take i new1) (new1 ! i) = Some e"
          "\<not> handled (new1 ! i) e"
          by (simp_all add: nth_append)
        with p1 True have "r1 = Inl e" by blast
        with Inr show ?thesis by simp
      next
        case False
        let ?j = "i - length new1"
        from False i have j: "?j < length new2" by simp
        from False fl have "fails env (log1 @ take ?j new2) (new2 ! ?j) = Some e"
          by (simp add: nth_append n1)
        moreover from False nh have "\<not> handled (new2 ! ?j) e" by (simp add: nth_append)
        ultimately have "r = Inl e \<and> Suc ?j = length new2" using p2 j by blast
        with False show ?thesis by auto
      qed
    qed
    with n1 n2 show ?thesis by (intro exI[of _ "new1 @ new2"]) simp
  qed
qed

lemma propagates_get_git_branch_name: "propagates env (get_git_branch_name env)"
  by (auto simp: propagates_def get_git_branch_name_def io_bind_apply call_def lift_def handled_def
      split: option.splits sum.splits error.splits)

lemma propagates_if:
  "(c \<Longrightarrow> propagates env m) \<Longrightarrow> (\<not> c \<Longrightarrow> propagates env n) \<Longrightarrow>
   propagates env (if c then m else n)"
  by simp

lemmas propagates_intros = propagates_bind propagates_return propagates_raise propagates_lift
  propagates_call propagates_call_unit propagates_get_git_branch_name propagates_if

lemma propagates_init_parser: "propagates env (init_parser env popt)"
  unfolding init_parser_def Let_def by (intro propagates_intros)

lemma propagates_prepare_notebook:
  "propagates env (prepare_notebook env out e i b gu gr pl tpl od df)"
  unfolding prepare_notebook_def by (cases gu; cases gr) (simp_all add: propagates_intros)

lemma propagates_main: "propagates env (main env argv)"
  unfolding main_def Let_def
  by (intro propagates_intros propagates_init_parser propagates_prepare_notebook)

subsection \<open>Parsing\<close>

lemma main_eq: "main env argv = io_bind (parse_cli env argv) (run_args env)"
  by (simp add: main_def parse_cli_def run_args_def[abs_def] io_bind_assoc)

lemma get_git_branch_name_log:
  "get_git_branch_name env log = (r, log') \<Longrightarrow> log' = log @ [Check_output git_command]"
  by (auto simp: get_git_branch_name_def io_bind_apply call_def lift_def
      split: option.splits sum.splits error.splits)

lemma get_git_branch_name_caught:
  "fails env log (Check_output git_command) = Some CalledProcessError \<Longrightarrow>
   get_git_branch_name env log = (Inr branch_error, log @ [Check_output git_command])"
  by (simp add: get_git_branch_name_def io_bind_def call_def)

lemmas flag_defs = notebook_flag_def user_flag_def branch_flag_def cpu_flag_def push_flag_def
  download_flag_def

lemma init_parser_None:
  "init_parser env None log =
     (case get_git_branch_name env log of
        (Inl e, log') \<Rightarrow> (Inl e, log')
      | (Inr b, log') \<Rightarrow>
          (Inr \<lparr>description = ''Train a model on Kaggle using a script'', add_help = True,
                arguments = [notebook_flag env, user_flag env, branch_flag b,
                             cpu_flag, push_flag, download_flag]\<rparr>, log'))"
proof (cases "get_git_branch_name env log")
  case (Pair r log')
  show ?thesis
  proof (cases r)
    case (Inl e)
    with Pair show ?thesis
      by (simp add: init_parser_def add_argument_def option_strings_def flag_defs io_bind_apply)
  next
    case (Inr b)
    with Pair show ?thesis
      by (simp add: init_parser_def add_argument_def option_strings_def flag_defs io_bind_apply lift_def)
  qed
qed

lemma init_parser_None_log:
  "init_parser env None log = (r, log') \<Longrightarrow> log' = log @ [Check_output git_command]"
  by (auto simp: init_parser_None split: prod.splits sum.splits dest: get_git_branch_name_log)

lemma parse_cli_log:
  assumes "parse_cli env argv log = (Inr a, log0)"
  shows "log0 = log @ [Check_output git_command, Parse_args argv]"
proof -
  obtain r1 log1 where ip: "init_parser env None log = (r1, log1)"
    by (cases "init_parser env None log")
  then have l1: "log1 = log @ [Check_output git_command]" by (rule init_parser_None_log)
  from assms ip show ?thesis
    by (auto simp: parse_cli_def io_bind_apply lift_def call_def l1
        split: sum.splits option.splits)
qed

lemma main_after_parse:
  "parse_cli env argv log = (Inr a, log0) \<Longrightarrow> main env argv log = run_args env a log0"
  by (simp add: main_eq io_bind_apply)

subsection \<open>The calls of a run follow the plan\<close>

lemma follows_return: "follows (io_return x) log []"
  by (simp add: follows_def io_return_def)

lemma follows_raise: "follows (io_raise e) log plan"
  by (simp add: follows_def io_raise_def)

lemma follows_call_bind:
  assumes "fails env log ev = None \<Longrightarrow> follows (f (res log)) (log @ [ev]) plan"
  shows "follows (io_bind (call env ev res) f) log (ev # plan)"
proof (cases "fails env log ev")
  case None
  with assms have "follows (f (res log)) (log @ [ev]) plan" by simp
  with None show ?thesis
    by (auto simp: follows_def io_bind_apply call_def split: prod.splits)
next
  case (Some e)
  then show ?thesis by (simp add: follows_def io_bind_apply call_def)
qed

lemma follows_call: "follows (call env ev res) log [ev]"
  by (simp add: follows_def call_def split: option.splits)

lemma follows_call_unit_bind:
  "(fails env log ev = None \<Longrightarrow> follows (f ()) (log @ [ev]) plan) \<Longrightarrow>
   follows (io_bind (call_unit env ev) f) log (ev # plan)"
  unfolding call_unit_def by (rule follows_call_bind)

lemma follows_call_unit: "follows (call_unit env ev) log [ev]"
  unfolding call_unit_def by (rule follows_call)

lemmas name_defs = exp_str_of_def iteration_str_of_def tmp_dir_of_def kernel_path_of_def
  notebook_path_of_def metadata_path_of_def template_path_of_def pipeline_of_def

lemma run_args_no_pipeline:
  "\<not> full a \<Longrightarrow> \<not> learning a \<Longrightarrow> \<not> testing a \<Longrightarrow>
   run_args env a log = (Inl NotImplementedError, log)"
  by (simp add: run_args_def) (simp add: io_raise_def)

lemma run_args_no_user:
  "lookup_user env (user a) = Inl e \<Longrightarrow> \<exists>e'. run_args env a log = (Inl e', log)"
  by (simp add: run_args_def) (simp add: io_raise_def)

lemma run_args_no_username:
  "lookup_user env (user a) = Inr ku \<Longrightarrow> getitem ku ''username'' = Inl e \<Longrightarrow>
   \<exists>e'. run_args env a log = (Inl e', log)"
  by (simp add: run_args_def) (simp add: io_raise_def)

lemma run_args_download_follows:
  assumes "download a" "lookup_user env (user a) = Inr ku" "getitem ku ''username'' = Inr uname"
  shows "follows (run_args env a) log (download_plan env a ku uname)"
proof (cases "full a \<or> learning a \<or> testing a")
  case False
  then show ?thesis by (simp add: run_args_no_pipeline follows_def)
next
  case True
  then show ?thesis
    unfolding run_args_def Let_def download_plan_def name_defs
    using assms
    by (auto intro!: follows_call_unit_bind follows_call_unit)
qed

lemma define_config_total:
  "getitem ku ''username'' = Inr uname \<Longrightarrow> \<exists>cfg. define_config env a ku es nb = Inr cfg"
  by (simp add: define_config_def)

lemma run_args_launch_follows:
  assumes "\<not> download a" "lookup_user env (user a) = Inr ku" "getitem ku ''username'' = Inr uname"
    and "GIT_USER (constants env) = Some gu" "GIT_REPO (constants env) = Some gr"
    and "define_config env a ku (exp_str_of a) (notebook_id a) = Inr cfg"
  shows "follows (run_args env a) log (launch_plan env a log ku uname gu gr cfg)"
proof (cases "full a \<or> learning a \<or> testing a")
  case False
  then show ?thesis by (simp add: run_args_no_pipeline follows_def)
next
  case True
  have pl: "(if full a then io_return ''full''
             else if learning a then io_return ''learning''
             else if testing a then io_return ''testing''
             else io_raise NotImplementedError) = io_return (pipeline_of a)"
    using True by (auto simp: pipeline_of_def)
  show ?thesis
    unfolding run_args_def Let_def pl
    using assms
    apply (simp add: prepare_notebook_def io_bind_assoc launch_plan_def notebook_text_def
        name_defs)
    apply (intro conjI impI | rule follows_call_unit_bind follows_call_bind follows_call_unit
        follows_return follows_raise | simp)+
    done
qed

lemma run_args_no_git_follows:
  assumes "\<not> download a" "lookup_user env (user a) = Inr ku" "getitem ku ''username'' = Inr uname"
    and "GIT_USER (constants env) = None \<or> GIT_REPO (constants env) = None"
  shows "follows (run_args env a) log (launch_plan env a log ku uname gu gr cfg)"
proof (cases "full a \<or> learning a \<or> testing a")
  case False
  then show ?thesis by (simp add: run_args_no_pipeline follows_def)
next
  case True
  have pl: "(if full a then io_return ''full''
             else if learning a then io_return ''learning''
             else if testing a then io_return ''testing''
             else io_raise NotImplementedError) = io_return (pipeline_of a)"
    using True by (auto simp: pipeline_of_def)
  have cfg: "\<exists>c. define_config env a ku (join ''_'' (map format_05d (exp a))) (notebook_id a) = Inr c"
    using assms(3) by (rule define_config_total)
  have raise: "\<exists>msg. prepare_notebook env out e i b (GIT_USER (constants env))
                 (GIT_REPO (constants env)) p t od df = io_raise (AssertionError msg)"
    for out e i b p t od df
    using assms(4) by (auto simp: prepare_notebook_def split: option.splits)
  from cfg obtain c where c: "define_config env a ku (join ''_'' (map format_05d (exp a)))
      (notebook_id a) = Inr c" by blast
  obtain msg where m: "prepare_notebook env
        ((''__nb_'' @ uname) @ ''/'' @ join ''_'' (map format_05d (exp a)) @ ''/'' @ notebook_id a @ ''.ipynb'')
        (PyIntList (exp a)) (PyIntList (iteration a)) (branch a)
        (GIT_USER (constants env)) (GIT_REPO (constants env)) (pipeline_of a)
        (os_path_join (REMOTE_TRAINING_FOLDER (constants env)) ''remote_training.ipynb'')
        (Some (OUTPUT_FOLDER (constants env))) None = io_raise (AssertionError msg)"
    using raise by blast
  show ?thesis
    unfolding run_args_def Let_def pl
    using assms(1-3) c m
    apply (simp add: launch_plan_def name_defs)
    apply (intro conjI impI | rule follows_call_unit_bind follows_call_bind follows_call_unit
        follows_return follows_raise | simp)+
    done
qed

lemma io_bind_Inr:
  "io_bind m f log = (Inr y, l2) \<Longrightarrow> \<exists>x l1. m log = (Inr x, l1) \<and> f x l1 = (Inr y, l2)"
  by (auto simp: io_bind_apply split: prod.splits sum.splits)

lemma follows_Inr: "follows m log plan \<Longrightarrow> m log = (Inr x, tr) \<Longrightarrow> tr = log @ plan"
  by (auto simp: follows_def)

lemma follows_prefix:
  "follows m log plan \<Longrightarrow> m log = (r, tr) \<Longrightarrow> \<exists>new. tr = log @ new \<and> prefix new plan"
  by (auto simp: follows_def)

lemma run_args_no_git:
  assumes "\<not> download a"
    and "GIT_USER (constants env) = None \<or> GIT_REPO (constants env) = None"
  shows "run_args env a log \<noteq> (Inr x, tr)"
proof
  assume run: "run_args env a log = (Inr x, tr)"
  have raise: "\<exists>msg. prepare_notebook env out e i b (GIT_USER (constants env))
                 (GIT_REPO (constants env)) p t od df = io_raise (AssertionError msg)"
    for out e i b p t od df
    using assms(2) by (auto simp: prepare_notebook_def split: option.splits)
  have stop: "prepare_notebook env out e i b (GIT_USER (constants env))
                 (GIT_REPO (constants env)) p t od df l \<noteq> (Inr y, l')"
    for out e i b p t od df l y l'
    using raise[of out e i b p t od df] by (auto simp: io_raise_def)
  from run assms(1) show False
    unfolding run_args_def Let_def
    by (auto dest!: io_bind_Inr simp: stop)
qed

text \<open>A run that returns has performed the whole plan of its branch.\<close>

lemma run_args_success:
  assumes run: "run_args env a log = (Inr x, tr)"
  shows "(full a \<or> learning a \<or> testing a) \<and>
     (\<exists>ku uname. lookup_user env (user a) = Inr ku \<and> getitem ku ''username'' = Inr uname \<and>
        (if download a then tr = log @ download_plan env a ku uname
         else \<exists>gu gr cfg. GIT_USER (constants env) = Some gu \<and> GIT_REPO (constants env) = Some gr \<and>
                define_config env a ku (exp_str_of a) (notebook_id a) = Inr cfg \<and>
                tr = log @ launch_plan env a log ku uname gu gr cfg))"
proof (intro conjI)
  show "full a \<or> learning a \<or> testing a"
    using run run_args_no_pipeline[where a=a and env=env and log=log] by auto
  obtain ku where ku: "lookup_user env (user a) = Inr ku"
    using run run_args_no_user[where env=env and a=a and log=log]
    by (cases "lookup_user env (user a)") auto
  obtain uname where un: "getitem ku ''username'' = Inr uname"
    using run run_args_no_username[OF ku, where log=log]
    by (cases "getitem ku ''username''") auto
  show "\<exists>ku uname. lookup_user env (user a) = Inr ku \<and> getitem ku ''username'' = Inr uname \<and>
        (if download a then tr = log @ download_plan env a ku uname
         else \<exists>gu gr cfg. GIT_USER (constants env) = Some gu \<and> GIT_REPO (constants env) = Some gr \<and>
                define_config env a ku (exp_str_of a) (notebook_id a) = Inr cfg \<and>
                tr = log @ launch_plan env a log ku uname gu gr cfg)"
  proof (cases "download a")
    case True
    from run_args_download_follows[OF True ku un] run
    have "tr = log @ download_plan env a ku uname" by (rule follows_Inr)
    with True ku un show ?thesis by auto
  next
    case False
    from run_args_no_git[OF False, where env=env and log=log and x=x and tr=tr] run
    obtain gu gr where g: "GIT_USER (constants env) = Some gu" "GIT_REPO (constants env) = Some gr"
      by (cases "GIT_USER (constants env)"; cases "GIT_REPO (constants env)") auto
    from define_config_total[OF un] obtain cfg
      where c: "define_config env a ku (exp_str_of a) (notebook_id a) = Inr cfg" by blast
    from run_args_launch_follows[OF False ku un g c] run
    have "tr = log @ launch_plan env a log ku uname gu gr cfg" by (rule follows_Inr)
    with False ku un g c show ?thesis by auto
  qed
qed

text \<open>Every run performs a beginning of the plan of its branch.\<close>

lemma run_args_prefix:
  assumes run: "run_args env a log = (r, tr)"
  shows "\<exists>ku uname gu gr cfg new. tr = log @ new \<and>
           prefix new (if download a then download_plan env a ku uname
                       else launch_plan env a log ku uname gu gr cfg)"
proof (cases "lookup_user env (user a)")
  case (Inl e)
  from run_args_no_user[OF Inl, where log=log] run have "tr = log" by auto
  then show ?thesis by simp
next
  case (Inr ku)
  show ?thesis
  proof (cases "getitem ku ''username''")
    case (Inl e)
    from run_args_no_username[OF Inr Inl, where log=log] run have "tr = log" by auto
    then show ?thesis by simp
  next
    case un: (Inr uname)
    show ?thesis
    proof (cases "download a")
      case True
      from follows_prefix[OF run_args_download_follows[OF True Inr un] run]
      obtain new where "tr = log @ new" "prefix new (download_plan env a ku uname)" by blast
      with True show ?thesis
        by (intro exI[of _ ku] exI[of _ uname] exI[of _ new]) simp
    next
      case False
      show ?thesis
      proof (cases "GIT_USER (constants env) = None \<or> GIT_REPO (constants env) = None")
        case True
        from follows_prefix[OF run_args_no_git_follows[OF False Inr un True,
              where gu="[]" and gr="[]" and cfg="[]"] run]
        obtain new where "tr = log @ new" "prefix new (launch_plan env a log ku uname [] [] [])"
          by blast
        with False show ?thesis
          by (intro exI[of _ ku] exI[of _ uname] exI[of _ "[]"] exI[of _ new]) simp
      next
        case nogit: False
        then obtain gu gr where g: "GIT_USER (constants env) = Some gu"
          "GIT_REPO (constants env) = Some gr" by auto
        from define_config_total[OF un] obtain cfg
          where c: "define_config env a ku (exp_str_of a) (notebook_id a) = Inr cfg" by blast
        from follows_prefix[OF run_args_launch_follows[OF False Inr un g c] run]
        obtain new where "tr = log @ new" "prefix new (launch_plan env a log ku uname gu gr cfg)"
          by blast
        with False show ?thesis
          by (intro exI[of _ ku] exI[of _ uname] exI[of _ gu] exI[of _ gr] exI[of _ cfg]
              exI[of _ new]) simp
      qed
    qed
  qed
qed

lemma download_plan_quiet:
  "\<forall>ev\<in>set (download_plan env a ku uname). \<not> is_write ev \<and> \<not> is_push ev"
  by (simp add: download_plan_def)

lemma launch_plan_writes:
  "filter is_write (launch_plan env a log ku uname gu gr cfg) =
     [Open_write (notebook_path_of a uname),
      Write (notebook_path_of a uname) (notebook_text env a log ku uname gu gr),
      Open_write (metadata_path_of a uname),
      Json_dump (metadata_path_of a uname) cfg]"
  by (simp add: launch_plan_def)

lemma launch_plan_no_push:
  "\<not> push a \<Longrightarrow> \<forall>ev\<in>set (launch_plan env a log ku uname gu gr cfg). \<not> is_push ev"
  by (simp add: launch_plan_def)

lemma paths_differ: "notebook_path_of a uname \<noteq> metadata_path_of a uname"
proof
  assume "notebook_path_of a uname = metadata_path_of a uname"
  then have "last (notebook_path_of a uname) = last (metadata_path_of a uname)" by simp
  then show False by (simp add: notebook_path_of_def metadata_path_of_def)
qed

subsection \<open>The runs in the concrete environments\<close>

lemma main_demo: "main demo_env [] [] = (Inr (), demo_trace)"
  by code_simp

lemma main_no_push: "main no_push_env [] [] = (Inl (Raised ''ApiException''), demo_trace)"
  by code_simp

lemma main_download: "main download_env [] [] = (Inr (), download_trace)"
  by code_simp

lemma parse_demo:
  "parse_cli demo_env [] [] = (Inr demo_args, [Check_output git_command, Parse_args []])"
  by code_simp

lemma parse_download:
  "parse_cli download_env [] [] =
     (Inr (demo_args\<lparr>download := True\<rparr>), [Check_output git_command, Parse_args []])"
  by code_simp

lemma parse_no_pipeline:
  "parse_cli no_pipeline_env [] [] =
     (Inr (demo_args\<lparr>full := False\<rparr>), [Check_output git_command, Parse_args []])"
  by code_simp

subsection \<open>Where the program raises\<close>

lemma run_call_bind:
  "fails env log ev = None \<Longrightarrow> f (res log) (log @ [ev]) = R \<Longrightarrow>
   io_bind (call env ev res) f log = R"
  by (simp add: io_bind_apply call_def)

lemma run_call_unit_bind:
  "fails env log ev = None \<Longrightarrow> f () (log @ [ev]) = R \<Longrightarrow>
   io_bind (call_unit env ev) f log = R"
  by (simp add: io_bind_apply call_unit_def call_def)

lemma pipeline_chosen:
  "full a \<or> learning a \<or> testing a \<Longrightarrow>
   (if full a then io_return ''full''
    else if learning a then io_return ''learning''
    else if testing a then io_return ''testing''
    else io_raise NotImplementedError) = io_return (pipeline_of a)"
  by (auto simp: pipeline_of_def)

lemma main_decode_raises:
  assumes "fails env [] (Check_output git_command) = None"
    and "decode env (strip (check_output_result env [] git_command)) = Inl e"
    and "e \<noteq> CalledProcessError"
  shows "main env argv [] = (Inl e, [Check_output git_command])"
proof -
  have "get_git_branch_name env [] = (Inl e, [Check_output git_command])"
    using assms by (cases e) (simp_all add: get_git_branch_name_def io_bind_apply call_def lift_def)
  then have "init_parser env None [] = (Inl e, [Check_output git_command])"
    by (simp add: init_parser_None)
  then show ?thesis by (simp add: main_def io_bind_apply)
qed

lemma main_get_parser_raises:
  "init_parser env None [] = (Inr p, l) \<Longrightarrow> get_parser env p = Inl e \<Longrightarrow>
   main env argv [] = (Inl e, l)"
  by (simp add: main_def io_bind_apply io_raise_def)

lemma run_args_lookup_raises:
  "full a \<or> learning a \<or> testing a \<Longrightarrow> lookup_user env (user a) = Inl e \<Longrightarrow>
   run_args env a log0 = (Inl e, log0)"
  by (auto simp: run_args_def) (simp_all add: io_raise_def)

lemma run_args_username_raises:
  "full a \<or> learning a \<or> testing a \<Longrightarrow> lookup_user env (user a) = Inr ku \<Longrightarrow>
   getitem ku ''username'' = Inl e \<Longrightarrow> run_args env a log0 = (Inl e, log0)"
  by (auto simp: run_args_def) (simp_all add: io_raise_def)

lemma run_args_git_user_None:
  assumes "full a \<or> learning a \<or> testing a"
    and "lookup_user env (user a) = Inr ku" and "getitem ku ''username'' = Inr uname"
    and "\<not> download a"
    and "quiet env log0 [Load_config ku, Makedirs (kernel_path_of a uname)]"
    and "GIT_USER (constants env) = None"
  shows "run_args env a log0 =
     (Inl (AssertionError ''Please provide a git username for the repo''),
      log0 @ [Load_config ku, Makedirs (kernel_path_of a uname)])"
  unfolding run_args_def Let_def pipeline_chosen[OF assms(1)]
  using assms(2-)
  apply (simp add: prepare_notebook_def define_config_def name_defs)
  apply (rule run_call_unit_bind, simp)
  apply (rule run_call_unit_bind, simp)
  apply (simp add: io_raise_def)
  done

lemma run_args_git_repo_None:
  assumes "full a \<or> learning a \<or> testing a"
    and "lookup_user env (user a) = Inr ku" and "getitem ku ''username'' = Inr uname"
    and "\<not> download a"
    and "quiet env log0 [Load_config ku, Makedirs (kernel_path_of a uname)]"
    and "GIT_USER (constants env) = Some gu" and "GIT_REPO (constants env) = None"
  shows "run_args env a log0 =
     (Inl (AssertionError ''Please provide a git repo name for the repo''),
      log0 @ [Load_config ku, Makedirs (kernel_path_of a uname)])"
  unfolding run_args_def Let_def pipeline_chosen[OF assms(1)]
  using assms(2-)
  apply (simp add: prepare_notebook_def define_config_def name_defs)
  apply (rule run_call_unit_bind, simp)
  apply (rule run_call_unit_bind, simp)
  apply (simp add: io_raise_def)
  done

lemma run_args_no_file:
  assumes "full a \<or> learning a \<or> testing a"
    and "lookup_user env (user a) = Inr ku" and "getitem ku ''username'' = Inr uname"
    and "\<not> download a"
    and "GIT_USER (constants env) = Some gu" and "GIT_REPO (constants env) = Some gr"
    and "quiet env log0
           [Load_config ku, Makedirs (kernel_path_of a uname),
            Open_read (template_path_of env), Readlines (template_path_of env),
            Open_write (notebook_path_of a uname),
            Write (notebook_path_of a uname) (notebook_text env a log0 ku uname gu gr),
            Path_exists (notebook_path_of a uname)]"
    and "\<not> path_exists_result env
            (log0 @ [Load_config ku, Makedirs (kernel_path_of a uname),
               Open_read (template_path_of env), Readlines (template_path_of env),
               Open_write (notebook_path_of a uname),
               Write (notebook_path_of a uname) (notebook_text env a log0 ku uname gu gr)])
            (notebook_path_of a uname)"
  shows "run_args env a log0 =
     (Inl (AssertionError []),
      log0 @ [Load_config ku, Makedirs (kernel_path_of a uname),
            Open_read (template_path_of env), Readlines (template_path_of env),
            Open_write (notebook_path_of a uname),
            Write (notebook_path_of a uname) (notebook_text env a log0 ku uname gu gr),
            Path_exists (notebook_path_of a uname)])"
proof -
  from define_config_total[OF assms(3)] obtain cfg
    where c: "define_config env a ku (join ''_'' (map format_05d (exp a))) (notebook_id a) = Inr cfg"
    by blast
  show ?thesis
    unfolding run_args_def Let_def pipeline_chosen[OF assms(1)]
    using assms(2-) c
    apply (simp add: prepare_notebook_def exp_str_of_def iteration_str_of_def kernel_path_of_def
      notebook_path_of_def template_path_of_def notebook_text_def io_bind_assoc
      split del: if_split)
    apply (rule run_call_unit_bind, simp)
    apply (rule run_call_unit_bind, simp)
    apply (rule run_call_unit_bind, simp)
    apply (rule run_call_bind, simp)
    apply (rule run_call_unit_bind, simp)
    apply (rule run_call_unit_bind, simp)
    apply (rule run_call_bind, simp)
    apply simp
    apply (simp add: io_raise_def)
    done
qed

lemma init_parser_raises:
  "init_parser env None [] = (Inl e, l) \<Longrightarrow> main env argv [] = (Inl e, l)"
  by (simp add: main_def io_bind_apply)

lemma add_argument_raises_1:
  "add_argument p (notebook_flag env) = Inl e \<Longrightarrow> init_parser env (Some p) log = (Inl e, log)"
  by (simp add: init_parser_def io_bind_apply lift_def io_raise_def)

lemma add_argument_raises_2:
  "add_argument p (notebook_flag env) = Inr p1 \<Longrightarrow> add_argument p1 (user_flag env) = Inl e \<Longrightarrow>
   init_parser env (Some p) log = (Inl e, log)"
  by (simp add: init_parser_def io_bind_apply lift_def io_raise_def)

lemma add_argument_raises_3:
  "add_argument p (notebook_flag env) = Inr p1 \<Longrightarrow> add_argument p1 (user_flag env) = Inr p2 \<Longrightarrow>
   get_git_branch_name env log = (Inr b, l) \<Longrightarrow> add_argument p2 (branch_flag b) = Inl e \<Longrightarrow>
   init_parser env (Some p) log = (Inl e, l)"
  by (simp add: init_parser_def io_bind_apply lift_def io_raise_def)

lemma add_argument_raises_4:
  "add_argument p (notebook_flag env) = Inr p1 \<Longrightarrow> add_argument p1 (user_flag env) = Inr p2 \<Longrightarrow>
   get_git_branch_name env log = (Inr b, l) \<Longrightarrow> add_argument p2 (branch_flag b) = Inr p3 \<Longrightarrow>
   add_argument p3 cpu_flag = Inl e \<Longrightarrow>
   init_parser env (Some p) log = (Inl e, l)"
  by (simp add: init_parser_def io_bind_apply lift_def io_raise_def)

lemma add_argument_raises_5:
  "add_argument p (notebook_flag env) = Inr p1 \<Longrightarrow> add_argument p1 (user_flag env) = Inr p2 \<Longrightarrow>
   get_git_branch_name env log = (Inr b, l) \<Longrightarrow> add_argument p2 (branch_flag b) = Inr p3 \<Longrightarrow>
   add_argument p3 cpu_flag = Inr p4 \<Longrightarrow> add_argument p4 push_flag = Inl e \<Longrightarrow>
   init_parser env (Some p) log = (Inl e, l)"
  by (simp add: init_parser_def io_bind_apply lift_def io_raise_def)

lemma add_argument_raises_6:
  "add_argument p (notebook_flag env) = Inr p1 \<Longrightarrow> add_argument p1 (user_flag env) = Inr p2 \<Longrightarrow>
   get_git_branch_name env log = (Inr b, l) \<Longrightarrow> add_argument p2 (branch_flag b) = Inr p3 \<Longrightarrow>
   add_argument p3 cpu_flag = Inr p4 \<Longrightarrow> add_argument p4 push_flag = Inr p5 \<Longrightarrow>
   add_argument p5 download_flag = Inl e \<Longrightarrow>
   init_parser env (Some p) log = (Inl e, l)"
  by (simp add: init_parser_def io_bind_apply lift_def io_raise_def)

lemma git_raises_in_init_parser:
  "add_argument p (notebook_flag env) = Inr p1 \<Longrightarrow> add_argument p1 (user_flag env) = Inr p2 \<Longrightarrow>
   get_git_branch_name env log = (Inl e, l) \<Longrightarrow>
   init_parser env (Some p) log = (Inl e, l)"
  by (simp add: init_parser_def io_bind_apply lift_def io_raise_def)

lemma main_no_decode:
  "main no_decode_env [] [] = (Inl (Raised ''UnicodeDecodeError''), [Check_output git_command])"
  by code_simp

lemma main_no_file: "main no_file_env [] [] = (Inl (AssertionError []), take 9 demo_trace)"
  by code_simp

lemma parse_no_file:
  "parse_cli no_file_env [] [] = (Inr demo_args, [Check_output git_command, Parse_args []])"
  by code_simp

lemma no_file_calls:
  "[Check_output git_command, Parse_args []] @
     [Load_config demo_user, Makedirs (kernel_path_of demo_args ''alice_k''),
      Open_read (template_path_of no_file_env), Readlines (template_path_of no_file_env),
      Open_write (notebook_path_of demo_args ''alice_k''),
      Write (notebook_path_of demo_args ''alice_k'')
        (notebook_text no_file_env demo_args [Check_output git_command, Parse_args []]
           demo_user ''alice_k'' ''alice'' ''nlp''),
      Path_exists (notebook_path_of demo_args ''alice_k'')] = take 9 demo_trace"
  by code_simp
section \<open>The claims\<close>

subsection \<open>Configuration and parser\<close>

text \<open>
  C2. For a Kaggle user that has a username, \<^verbatim>\<open>define_config\<close> returns a dictionary whose
  \<^verbatim>\<open>id\<close> is the username and \<open>exp_str\<close> joined by a slash, whose \<^verbatim>\<open>title\<close> is the
  notebook id in lower case, whose \<^verbatim>\<open>code_file\<close> is the notebook id followed by
  \<^verbatim>\<open>.ipynb\<close>, whose \<^verbatim>\<open>enable_gpu\<close> is \<^verbatim>\<open>"true"\<close> exactly when the cpu flag is off,
  whose three pipeline fields are \<^verbatim>\<open>"true"\<close> exactly when the matching flag is set, and whose
  \<^verbatim>\<open>is_private\<close> and \<^verbatim>\<open>enable_internet\<close> are \<^verbatim>\<open>"true"\<close> and \<^verbatim>\<open>enable_tpu\<close> is
  \<^verbatim>\<open>"false"\<close>.
\<close>

theorem define_config_fields:
  assumes "map_of kaggle_user ''username'' = Some username"
  shows "\<exists>config. define_config env a kaggle_user exp_str nb = Inr config \<and>
     map_of config ''id'' = Some (JStr (username @ ''/'' @ exp_str)) \<and>
     map_of config ''title'' = Some (JStr (lower nb)) \<and>
     map_of config ''code_file'' = Some (JStr (nb @ ''.ipynb'')) \<and>
     (map_of config ''enable_gpu'' = Some (JStr ''true'')) = (\<not> cpu a) \<and>
     map_of config ''enable_gpu'' = Some (JStr (if cpu a then ''false'' else ''true'')) \<and>
     (map_of config ''full_pipeline'' = Some (JStr ''true'')) = full a \<and>
     map_of config ''full_pipeline'' = Some (JStr (if full a then ''true'' else ''false'')) \<and>
     (map_of config ''learning_pipeline'' = Some (JStr ''true'')) = learning a \<and>
     map_of config ''learning_pipeline'' =
       Some (JStr (if learning a then ''true'' else ''false'')) \<and>
     (map_of config ''testing_pipeline'' = Some (JStr ''true'')) = testing a \<and>
     map_of config ''testing_pipeline'' =
       Some (JStr (if testing a then ''true'' else ''false'')) \<and>
     map_of config ''is_private'' = Some (JStr ''true'') \<and>
     map_of config ''enable_internet'' = Some (JStr ''true'') \<and>
     map_of config ''enable_tpu'' = Some (JStr ''false'')"
  using assms by (simp add: define_config_def getitem_def)

theorem define_config_fields_witness:
  "map_of [(''username'', ''alice_k''), (''key'', ''0000'')] ''username'' = Some ''alice_k'' \<and>
   (\<exists>config. define_config demo_env demo_args [(''username'', ''alice_k''), (''key'', ''0000'')]
                ''00001'' ''Remote-Training'' = Inr config \<and>
      map_of config ''id'' = Some (JStr ''alice_k/00001'') \<and>
      map_of config ''title'' = Some (JStr ''remote-training'') \<and>
      map_of config ''code_file'' = Some (JStr ''Remote-Training.ipynb'') \<and>
      map_of config ''enable_gpu'' = Some (JStr ''true'') \<and>
      map_of config ''full_pipeline'' = Some (JStr ''true'') \<and>
      map_of config ''learning_pipeline'' = Some (JStr ''false'') \<and>
      map_of config ''testing_pipeline'' = Some (JStr ''false'') \<and>
      map_of config ''is_private'' = Some (JStr ''true'') \<and>
      map_of config ''enable_internet'' = Some (JStr ''true'') \<and>
      map_of config ''enable_tpu'' = Some (JStr ''false''))"
proof -
  have h: "map_of [(''username'', ''alice_k''), (''key'', ''0000'')] ''username'' = Some ''alice_k''"
    by simp
  have l: "lower ''Remote-Training'' = ''remote-training''" by code_simp
  from define_config_fields[OF h, of demo_env demo_args "''00001''" "''Remote-Training''"]
  show ?thesis using h l by (auto simp: demo_args_def)
qed

text \<open>
  C5, as stated: the parser exposes exactly the six flags, and they are the command-line
  flags of the program. The parser that \<^verbatim>\<open>init_parser()\<close> builds answers to two more option
  strings, argparse's own \<^verbatim>\<open>-h\<close> and \<^verbatim>\<open>--help\<close>. And \<^verbatim>\<open>main\<close> parses with the parser
  as \<^verbatim>\<open>get_parser\<close> leaves it and reads \<^verbatim>\<open>full\<close> from the namespace, which none of the
  six flags sets: two runs whose namespaces differ in \<^verbatim>\<open>full\<close> alone end differently.
\<close>

theorem init_parser_flags_counterexample:
  "(\<exists>p. init_parser demo_env None [] = (Inr p, [Check_output git_command]) \<and>
        option_strings p =
          [''-h'', ''--help'', ''-n'', ''--notebook_id'', ''-u'', ''--user'', ''--branch'',
           ''--cpu'', ''-p'', ''--push'', ''-d'', ''--download'']) \<and>
   ''-h'' \<notin> set [''-n'', ''--notebook_id'', ''-u'', ''--user'', ''--branch'', ''--cpu'', ''-p'',
                  ''--push'', ''-d'', ''--download''] \<and>
   parse_cli demo_env [] [] = (Inr demo_args, [Check_output git_command, Parse_args []]) \<and>
   parse_cli no_pipeline_env [] [] =
     (Inr (demo_args\<lparr>full := False\<rparr>), [Check_output git_command, Parse_args []]) \<and>
   main demo_env [] [] = (Inr (), demo_trace) \<and>
   main no_pipeline_env [] [] =
     (Inl NotImplementedError, [Check_output git_command, Parse_args []])"
proof -
  have "init_parser demo_env None [] =
      (Inr \<lparr>description = ''Train a model on Kaggle using a script'', add_help = True,
            arguments = [notebook_flag demo_env, user_flag demo_env, branch_flag ''main'',
                         cpu_flag, push_flag, download_flag]\<rparr>, [Check_output git_command])"
    by code_simp
  then have "\<exists>p. init_parser demo_env None [] = (Inr p, [Check_output git_command]) \<and>
        option_strings p =
          [''-h'', ''--help'', ''-n'', ''--notebook_id'', ''-u'', ''--user'', ''--branch'',
           ''--cpu'', ''-p'', ''--push'', ''-d'', ''--download'']"
    by (simp add: option_strings_def flag_defs)
  moreover have "main no_pipeline_env [] [] =
     (Inl NotImplementedError, [Check_output git_command, Parse_args []])"
    by code_simp
  ultimately show ?thesis
    using parse_demo parse_no_pipeline main_demo by simp
qed

text \<open>
  C5, amended. When the git command does not fail and its output, stripped and decoded, is
  \<open>b\<close>, \<^verbatim>\<open>init_parser()\<close> returns a parser that answers to \<^verbatim>\<open>-h/--help\<close> and to
  exactly six arguments of its own, added in this order: \<^verbatim>\<open>-n/--notebook_id\<close> with default
  \<^verbatim>\<open>constants.NOTEBOOK_ID\<close>, \<^verbatim>\<open>-u/--user\<close> with the keys of \<^verbatim>\<open>kaggle_users\<close> as
  choices, \<^verbatim>\<open>--branch\<close> with default \<open>b\<close>, and the \<^verbatim>\<open>store_true\<close> toggles \<^verbatim>\<open>--cpu\<close>,
  \<^verbatim>\<open>-p/--push\<close> and \<^verbatim>\<open>-d/--download\<close>. These are the flags \<^verbatim>\<open>init_parser\<close> gives the
  program: \<^verbatim>\<open>main\<close> parses its arguments with this parser as \<^verbatim>\<open>get_parser\<close> leaves it.
\<close>

theorem init_parser_flags:
  assumes "fails env log (Check_output git_command) = None"
    and "decode env (strip (check_output_result env log git_command)) = Inr b"
  shows "\<exists>p. init_parser env None log = (Inr p, log @ [Check_output git_command]) \<and>
     option_strings p =
       [''-h'', ''--help'', ''-n'', ''--notebook_id'', ''-u'', ''--user'', ''--branch'',
        ''--cpu'', ''-p'', ''--push'', ''-d'', ''--download''] \<and>
     map flags (arguments p) =
       [[''-n'', ''--notebook_id''], [''-u'', ''--user''], [''--branch''], [''--cpu''],
        [''-p'', ''--push''], [''-d'', ''--download'']] \<and>
     map default_value (arguments p) =
       [Some (NOTEBOOK_ID (constants env)), None, Some b, None, None, None] \<and>
     map choices (arguments p) =
       [None, Some (map fst (kaggle_users env)), None, None, None, None] \<and>
     map arg_action (arguments p) = [Store, Store, Store, Store_true, Store_true, Store_true] \<and>
     (\<forall>p' argv. get_parser env p = Inr p' \<longrightarrow>
        fails env (log @ [Check_output git_command]) (Parse_args argv) = None \<longrightarrow>
        parse_cli env argv log =
          (Inr (parse_args_result env (log @ [Check_output git_command]) p' argv),
           log @ [Check_output git_command, Parse_args argv]))"
proof -
  have g: "get_git_branch_name env log = (Inr b, log @ [Check_output git_command])"
    using assms by (simp add: get_git_branch_name_def io_bind_apply call_def lift_def)
  let ?p = "\<lparr>description = ''Train a model on Kaggle using a script'', add_help = True,
             arguments = [notebook_flag env, user_flag env, branch_flag b,
                          cpu_flag, push_flag, download_flag]\<rparr>"
  have ip: "init_parser env None log = (Inr ?p, log @ [Check_output git_command])"
    using g by (simp add: init_parser_None)
  have pc: "\<forall>p' argv. get_parser env ?p = Inr p' \<longrightarrow>
        fails env (log @ [Check_output git_command]) (Parse_args argv) = None \<longrightarrow>
        parse_cli env argv log =
          (Inr (parse_args_result env (log @ [Check_output git_command]) p' argv),
           log @ [Check_output git_command, Parse_args argv])"
    using ip by (simp add: parse_cli_def io_bind_apply call_def)
  show ?thesis
    apply (rule exI[of _ ?p])
    using ip pc by (simp add: option_strings_def flag_defs)
qed

theorem init_parser_flags_witness:
  "fails demo_env [] (Check_output git_command) = None \<and>
   decode demo_env (strip (check_output_result demo_env [] git_command)) = Inr ''main'' \<and>
   get_parser demo_env = Inr \<and>
   (\<exists>p. init_parser demo_env None [] = (Inr p, [Check_output git_command]) \<and>
     option_strings p =
       [''-h'', ''--help'', ''-n'', ''--notebook_id'', ''-u'', ''--user'', ''--branch'',
        ''--cpu'', ''-p'', ''--push'', ''-d'', ''--download''] \<and>
     map flags (arguments p) =
       [[''-n'', ''--notebook_id''], [''-u'', ''--user''], [''--branch''], [''--cpu''],
        [''-p'', ''--push''], [''-d'', ''--download'']] \<and>
     map default_value (arguments p) =
       [Some ''Remote-Training'', None, Some ''main'', None, None, None] \<and>
     map choices (arguments p) = [None, Some [''alice''], None, None, None, None] \<and>
     map arg_action (arguments p) = [Store, Store, Store, Store_true, Store_true, Store_true] \<and>
     parse_cli demo_env [''-p''] [] =
       (Inr (parse_args_result demo_env [Check_output git_command] p [''-p'']),
        [Check_output git_command, Parse_args [''-p'']]))"
proof -
  have f: "fails demo_env [] (Check_output git_command) = None"
    by (simp add: demo_env_def)
  have d: "decode demo_env (strip (check_output_result demo_env [] git_command)) = Inr ''main''"
    by (simp add: demo_env_def strip_def is_space_def)
  have gp: "get_parser demo_env = Inr" by (simp add: demo_env_def)
  have pa: "fails demo_env ([] @ [Check_output git_command]) (Parse_args [''-p'']) = None"
    by (simp add: demo_env_def)
  from init_parser_flags[OF f d] obtain p where all:
    "init_parser demo_env None [] = (Inr p, [] @ [Check_output git_command]) \<and>
     option_strings p =
       [''-h'', ''--help'', ''-n'', ''--notebook_id'', ''-u'', ''--user'', ''--branch'',
        ''--cpu'', ''-p'', ''--push'', ''-d'', ''--download''] \<and>
     map flags (arguments p) =
       [[''-n'', ''--notebook_id''], [''-u'', ''--user''], [''--branch''], [''--cpu''],
        [''-p'', ''--push''], [''-d'', ''--download'']] \<and>
     map default_value (arguments p) =
       [Some (NOTEBOOK_ID (constants demo_env)), None, Some ''main'', None, None, None] \<and>
     map choices (arguments p) =
       [None, Some (map fst (kaggle_users demo_env)), None, None, None, None] \<and>
     map arg_action (arguments p) = [Store, Store, Store, Store_true, Store_true, Store_true] \<and>
     (\<forall>p' argv. get_parser demo_env p = Inr p' \<longrightarrow>
        fails demo_env ([] @ [Check_output git_command]) (Parse_args argv) = None \<longrightarrow>
        parse_cli demo_env argv [] =
          (Inr (parse_args_result demo_env ([] @ [Check_output git_command]) p' argv),
           [] @ [Check_output git_command, Parse_args argv]))" ..
  then have p: "init_parser demo_env None [] = (Inr p, [] @ [Check_output git_command])"
      "option_strings p =
       [''-h'', ''--help'', ''-n'', ''--notebook_id'', ''-u'', ''--user'', ''--branch'',
        ''--cpu'', ''-p'', ''--push'', ''-d'', ''--download'']"
      "map flags (arguments p) =
       [[''-n'', ''--notebook_id''], [''-u'', ''--user''], [''--branch''], [''--cpu''],
        [''-p'', ''--push''], [''-d'', ''--download'']]"
      "map default_value (arguments p) =
       [Some (NOTEBOOK_ID (constants demo_env)), None, Some ''main'', None, None, None]"
      "map choices (arguments p) =
       [None, Some (map fst (kaggle_users demo_env)), None, None, None, None]"
      "map arg_action (arguments p) = [Store, Store, Store, Store_true, Store_true, Store_true]"
    by simp_all
  from all have pc: "\<forall>p' argv. get_parser demo_env p = Inr p' \<longrightarrow>
        fails demo_env ([] @ [Check_output git_command]) (Parse_args argv) = None \<longrightarrow>
        parse_cli demo_env argv [] =
          (Inr (parse_args_result demo_env ([] @ [Check_output git_command]) p' argv),
           [] @ [Check_output git_command, Parse_args argv])"
    by (elim conjE)
  from pc gp pa have "parse_cli demo_env [''-p''] [] =
       (Inr (parse_args_result demo_env [Check_output git_command] p [''-p'']),
        [Check_output git_command, Parse_args [''-p'']])"
    by simp
  with p f d gp show ?thesis
    by (intro conjI exI[of _ p]) (simp_all add: demo_env_def demo_constants_def)
qed

text \<open>
  C8. When the git call ends in \<^verbatim>\<open>CalledProcessError\<close>, \<^verbatim>\<open>get_git_branch_name\<close> does not
  raise: it returns the fixed text \<^verbatim>\<open>Error: Could not determine the Git branch name.\<close>;
  that text is the default of \<^verbatim>\<open>--branch\<close> in the parser \<^verbatim>\<open>init_parser\<close> builds; and a
  template line that holds the branch marker receives it, between quotes.
\<close>

theorem git_branch_sentinel:
  assumes "fails env log (Check_output git_command) = Some CalledProcessError"
  shows "get_git_branch_name env log =
           (Inr ''Error: Could not determine the Git branch name.'',
            log @ [Check_output git_command]) \<and>
         (\<exists>p. init_parser env None log = (Inr p, log @ [Check_output git_command]) \<and>
              flags (arguments p ! 2) = [''--branch''] \<and>
              default_value (arguments p ! 2) =
                Some ''Error: Could not determine the Git branch name.'') \<and>
         substitute_line
           (expressions env e i ''Error: Could not determine the Git branch name.'' gu gr pl od df)
           ''!!!branch!!!'' =
           quoted ''Error: Could not determine the Git branch name.''"
proof (intro conjI)
  have g: "get_git_branch_name env log = (Inr branch_error, log @ [Check_output git_command])"
    using assms by (rule get_git_branch_name_caught)
  then show "get_git_branch_name env log =
      (Inr ''Error: Could not determine the Git branch name.'', log @ [Check_output git_command])"
    by (simp add: branch_error_def)
  show "\<exists>p. init_parser env None log = (Inr p, log @ [Check_output git_command]) \<and>
              flags (arguments p ! 2) = [''--branch''] \<and>
              default_value (arguments p ! 2) =
                Some ''Error: Could not determine the Git branch name.''"
    using g by (simp add: init_parser_None flag_defs branch_error_def)
  show "substitute_line
           (expressions env e i ''Error: Could not determine the Git branch name.'' gu gr pl od df)
           ''!!!branch!!!'' =
           quoted ''Error: Could not determine the Git branch name.''"
    by (simp add: substitute_line_def expressions_def placeholder_def)
qed

theorem git_branch_sentinel_witness:
  "fails no_git_env [] (Check_output git_command) = Some CalledProcessError \<and>
   get_git_branch_name no_git_env [] =
     (Inr ''Error: Could not determine the Git branch name.'', [Check_output git_command]) \<and>
   (\<exists>p. init_parser no_git_env None [] = (Inr p, [Check_output git_command]) \<and>
        flags (arguments p ! 2) = [''--branch''] \<and>
        default_value (arguments p ! 2) =
          Some ''Error: Could not determine the Git branch name.'')"
proof -
  have h: "fails no_git_env [] (Check_output git_command) = Some CalledProcessError"
    by (simp add: no_git_env_def demo_env_def)
  from git_branch_sentinel[OF h] show ?thesis using h by simp
qed

text \<open>
  C10. \<^verbatim>\<open>prepare_notebook\<close> called with \<^verbatim>\<open>git_user\<close> or \<^verbatim>\<open>git_repo\<close> equal to
  \<^verbatim>\<open>None\<close> (their defaults) raises \<^verbatim>\<open>AssertionError\<close> and makes no external call at all:
  no file is opened, read or written.
\<close>

theorem prepare_notebook_asserts:
  assumes "git_user = None \<or> git_repo = None"
  shows "\<exists>msg. prepare_notebook env output_nb_path e i b git_user git_repo pipeline
            template_nb_path output_dir dataset_files log = (Inl (AssertionError msg), log)"
  using assms by (auto simp: prepare_notebook_def io_raise_def split: option.splits)

theorem prepare_notebook_asserts_witness:
  "((None :: string option) = None \<or> (None :: string option) = None) \<and>
   (\<exists>msg. prepare_notebook demo_env ''out.ipynb'' (PyInt 1) (PyInt 2) ''main'' None None ''full''
            ''remote_training/remote_training.ipynb'' (Some ''__output'') None [] =
          (Inl (AssertionError msg), []))"
  using prepare_notebook_asserts[of None None demo_env "''out.ipynb''" "PyInt 1" "PyInt 2"
      "''main''" "''full''" "''remote_training/remote_training.ipynb''" "Some ''__output''" None "[]"]
  by simp

subsection \<open>The run of \<^verbatim>\<open>main\<close>\<close>

text \<open>
  C9. When the parsed namespace sets none of \<^verbatim>\<open>full\<close>, \<^verbatim>\<open>learning\<close> and
  \<^verbatim>\<open>testing\<close>, \<^verbatim>\<open>main\<close> raises \<^verbatim>\<open>NotImplementedError\<close>, and the only external calls
  made by then are the git query and the argument parsing: no directory was created, no file
  opened or written, no call made to the hosted platform.
\<close>

theorem main_no_pipeline:
  assumes "parse_cli env argv [] = (Inr a, log0)"
    and "\<not> full a" and "\<not> learning a" and "\<not> testing a"
  shows "main env argv [] = (Inl NotImplementedError, log0) \<and>
         log0 = [Check_output git_command, Parse_args argv]"
  using assms parse_cli_log[of env argv "[]" a log0]
  by (simp add: main_after_parse run_args_no_pipeline)

theorem main_no_pipeline_witness:
  "parse_cli no_pipeline_env [] [] =
     (Inr (demo_args\<lparr>full := False\<rparr>), [Check_output git_command, Parse_args []]) \<and>
   \<not> full (demo_args\<lparr>full := False\<rparr>) \<and> \<not> learning (demo_args\<lparr>full := False\<rparr>) \<and>
   \<not> testing (demo_args\<lparr>full := False\<rparr>) \<and>
   main no_pipeline_env [] [] =
     (Inl NotImplementedError, [Check_output git_command, Parse_args []])"
proof -
  have f: "\<not> full (demo_args\<lparr>full := False\<rparr>)" "\<not> learning (demo_args\<lparr>full := False\<rparr>)"
    "\<not> testing (demo_args\<lparr>full := False\<rparr>)"
    by (simp_all add: demo_args_def)
  from main_no_pipeline[OF parse_no_pipeline f] show ?thesis
    using parse_no_pipeline f by simp
qed

text \<open>
  C3. The one exception the program handles is the \<^verbatim>\<open>CalledProcessError\<close> of the git
  command: \<^verbatim>\<open>init_parser\<close> goes on with the fixed text. Every other exception raised in a
  run of \<^verbatim>\<open>main\<close> ends the run and is its outcome. The places where one can arise are, in
  the order of the source:
  \<^item> an external call (the git command, \<^verbatim>\<open>parse_args\<close>, \<^verbatim>\<open>_load_config\<close>, the directory
    and file calls, \<^verbatim>\<open>kernels_output_cli\<close>, \<^verbatim>\<open>subprocess.run\<close>, \<^verbatim>\<open>kernels_push_cli\<close>):
    whichever call of the run raises, it is the last call and \<^verbatim>\<open>main\<close> ends with its
    exception;
  \<^item> the decoding of the git output;
  \<^item> an \<^verbatim>\<open>add_argument\<close> call of \<^verbatim>\<open>init_parser\<close>, which ends \<^verbatim>\<open>init_parser\<close>, as
    does an exception of \<^verbatim>\<open>get_git_branch_name\<close>; and what \<^verbatim>\<open>init_parser\<close> raises,
    \<^verbatim>\<open>main\<close> raises;
  \<^item> \<^verbatim>\<open>get_parser\<close>;
  \<^item> the pipeline dispatch (\<^verbatim>\<open>NotImplementedError\<close>);
  \<^item> the lookups \<^verbatim>\<open>kaggle_users[args.user]\<close> and \<^verbatim>\<open>kaggle_user["username"]\<close>;
  \<^item> the two assertions of \<^verbatim>\<open>prepare_notebook\<close>;
  \<^item> the assertion that the notebook exists.

  The second lookup of the username and \<^verbatim>\<open>define_config\<close> read the key the first lookup
  found and cannot raise.
\<close>

theorem main_propagates:
  "(\<forall>r tr i e. main env argv [] = (r, tr) \<longrightarrow> i < length tr \<longrightarrow>
       fails env (take i tr) (tr ! i) = Some e \<longrightarrow> \<not> handled (tr ! i) e \<longrightarrow>
       r = Inl e \<and> Suc i = length tr) \<and>
   (fails env [] (Check_output git_command) = Some CalledProcessError \<longrightarrow>
       (\<exists>p. init_parser env None [] = (Inr p, [Check_output git_command]))) \<and>
   (\<forall>e. fails env [] (Check_output git_command) = None \<longrightarrow>
       decode env (strip (check_output_result env [] git_command)) = Inl e \<longrightarrow>
       e \<noteq> CalledProcessError \<longrightarrow>
       main env argv [] = (Inl e, [Check_output git_command])) \<and>
   (\<forall>p log.
      (\<forall>e. add_argument p (notebook_flag env) = Inl e \<longrightarrow>
         init_parser env (Some p) log = (Inl e, log)) \<and>
      (\<forall>p1. add_argument p (notebook_flag env) = Inr p1 \<longrightarrow>
         (\<forall>e. add_argument p1 (user_flag env) = Inl e \<longrightarrow>
            init_parser env (Some p) log = (Inl e, log)) \<and>
         (\<forall>p2. add_argument p1 (user_flag env) = Inr p2 \<longrightarrow>
            (\<forall>e l. get_git_branch_name env log = (Inl e, l) \<longrightarrow>
               init_parser env (Some p) log = (Inl e, l)) \<and>
            (\<forall>b l. get_git_branch_name env log = (Inr b, l) \<longrightarrow>
               (\<forall>e. add_argument p2 (branch_flag b) = Inl e \<longrightarrow>
                  init_parser env (Some p) log = (Inl e, l)) \<and>
               (\<forall>p3. add_argument p2 (branch_flag b) = Inr p3 \<longrightarrow>
                  (\<forall>e. add_argument p3 cpu_flag = Inl e \<longrightarrow>
                     init_parser env (Some p) log = (Inl e, l)) \<and>
                  (\<forall>p4. add_argument p3 cpu_flag = Inr p4 \<longrightarrow>
                     (\<forall>e. add_argument p4 push_flag = Inl e \<longrightarrow>
                        init_parser env (Some p) log = (Inl e, l)) \<and>
                     (\<forall>p5. add_argument p4 push_flag = Inr p5 \<longrightarrow>
                        (\<forall>e. add_argument p5 download_flag = Inl e \<longrightarrow>
                           init_parser env (Some p) log = (Inl e, l))))))))) \<and>
   (\<forall>e l. init_parser env None [] = (Inl e, l) \<longrightarrow> main env argv [] = (Inl e, l)) \<and>
   (\<forall>p l e. init_parser env None [] = (Inr p, l) \<longrightarrow> get_parser env p = Inl e \<longrightarrow>
       main env argv [] = (Inl e, l)) \<and>
   (\<forall>a log0. parse_cli env argv [] = (Inr a, log0) \<longrightarrow>
      (\<not> full a \<and> \<not> learning a \<and> \<not> testing a \<longrightarrow>
         main env argv [] = (Inl NotImplementedError, log0)) \<and>
      (full a \<or> learning a \<or> testing a \<longrightarrow>
         (\<forall>e. lookup_user env (user a) = Inl e \<longrightarrow> main env argv [] = (Inl e, log0)) \<and>
         (\<forall>ku. lookup_user env (user a) = Inr ku \<longrightarrow>
            (\<forall>e. getitem ku ''username'' = Inl e \<longrightarrow> main env argv [] = (Inl e, log0)) \<and>
            (\<forall>uname. getitem ku ''username'' = Inr uname \<longrightarrow> \<not> download a \<longrightarrow>
               (quiet env log0 [Load_config ku, Makedirs (kernel_path_of a uname)] \<longrightarrow>
                  (GIT_USER (constants env) = None \<longrightarrow>
                     main env argv [] =
                       (Inl (AssertionError ''Please provide a git username for the repo''),
                        log0 @ [Load_config ku, Makedirs (kernel_path_of a uname)])) \<and>
                  (GIT_USER (constants env) \<noteq> None \<longrightarrow> GIT_REPO (constants env) = None \<longrightarrow>
                     main env argv [] =
                       (Inl (AssertionError ''Please provide a git repo name for the repo''),
                        log0 @ [Load_config ku, Makedirs (kernel_path_of a uname)]))) \<and>
               (\<forall>gu gr. GIT_USER (constants env) = Some gu \<longrightarrow>
                  GIT_REPO (constants env) = Some gr \<longrightarrow>
                  quiet env log0
                    [Load_config ku, Makedirs (kernel_path_of a uname),
                     Open_read (template_path_of env), Readlines (template_path_of env),
                     Open_write (notebook_path_of a uname),
                     Write (notebook_path_of a uname) (notebook_text env a log0 ku uname gu gr),
                     Path_exists (notebook_path_of a uname)] \<longrightarrow>
                  \<not> path_exists_result env
                       (log0 @
                        [Load_config ku, Makedirs (kernel_path_of a uname),
                         Open_read (template_path_of env), Readlines (template_path_of env),
                         Open_write (notebook_path_of a uname),
                         Write (notebook_path_of a uname)
                           (notebook_text env a log0 ku uname gu gr)])
                       (notebook_path_of a uname) \<longrightarrow>
                  main env argv [] =
                    (Inl (AssertionError []),
                     log0 @
                     [Load_config ku, Makedirs (kernel_path_of a uname),
                      Open_read (template_path_of env), Readlines (template_path_of env),
                      Open_write (notebook_path_of a uname),
                      Write (notebook_path_of a uname) (notebook_text env a log0 ku uname gu gr),
                      Path_exists (notebook_path_of a uname)]))))))"
proof (intro conjI allI impI)
  fix r tr i e
  assume m: "main env argv [] = (r, tr)" and i: "i < length tr"
    and f: "fails env (take i tr) (tr ! i) = Some e" and h: "\<not> handled (tr ! i) e"
  from propagates_main[of env argv] m
  obtain new where n: "tr = [] @ new"
    and p: "\<forall>i<length new. \<forall>e. fails env ([] @ take i new) (new ! i) = Some e \<longrightarrow>
               \<not> handled (new ! i) e \<longrightarrow> r = Inl e \<and> Suc i = length new"
    unfolding propagates_def by blast
  from n have "new = tr" by simp
  with p i f h show "r = Inl e" and "Suc i = length tr" by simp_all
next
  assume "fails env [] (Check_output git_command) = Some CalledProcessError"
  then have "get_git_branch_name env [] = (Inr branch_error, [] @ [Check_output git_command])"
    by (rule get_git_branch_name_caught)
  then show "\<exists>p. init_parser env None [] = (Inr p, [Check_output git_command])"
    by (simp add: init_parser_None)
next
  fix e
  assume "fails env [] (Check_output git_command) = None"
    and "decode env (strip (check_output_result env [] git_command)) = Inl e"
    and "e \<noteq> CalledProcessError"
  then show "main env argv [] = (Inl e, [Check_output git_command])"
    by (rule main_decode_raises)
next
  fix p log e
  assume "add_argument p (notebook_flag env) = Inl e"
  then show "init_parser env (Some p) log = (Inl e, log)" by (rule add_argument_raises_1)
next
  fix p log p1 e
  assume "add_argument p (notebook_flag env) = Inr p1" "add_argument p1 (user_flag env) = Inl e"
  then show "init_parser env (Some p) log = (Inl e, log)" by (rule add_argument_raises_2)
next
  fix p log p1 p2 e l
  assume "add_argument p (notebook_flag env) = Inr p1" "add_argument p1 (user_flag env) = Inr p2"
    "get_git_branch_name env log = (Inl e, l)"
  then show "init_parser env (Some p) log = (Inl e, l)" by (rule git_raises_in_init_parser)
next
  fix p log p1 p2 b l e
  assume "add_argument p (notebook_flag env) = Inr p1" "add_argument p1 (user_flag env) = Inr p2"
    "get_git_branch_name env log = (Inr b, l)" "add_argument p2 (branch_flag b) = Inl e"
  then show "init_parser env (Some p) log = (Inl e, l)" by (rule add_argument_raises_3)
next
  fix p log p1 p2 b l p3 e
  assume "add_argument p (notebook_flag env) = Inr p1" "add_argument p1 (user_flag env) = Inr p2"
    "get_git_branch_name env log = (Inr b, l)" "add_argument p2 (branch_flag b) = Inr p3"
    "add_argument p3 cpu_flag = Inl e"
  then show "init_parser env (Some p) log = (Inl e, l)" by (rule add_argument_raises_4)
next
  fix p log p1 p2 b l p3 p4 e
  assume "add_argument p (notebook_flag env) = Inr p1" "add_argument p1 (user_flag env) = Inr p2"
    "get_git_branch_name env log = (Inr b, l)" "add_argument p2 (branch_flag b) = Inr p3"
    "add_argument p3 cpu_flag = Inr p4" "add_argument p4 push_flag = Inl e"
  then show "init_parser env (Some p) log = (Inl e, l)" by (rule add_argument_raises_5)
next
  fix p log p1 p2 b l p3 p4 p5 e
  assume "add_argument p (notebook_flag env) = Inr p1" "add_argument p1 (user_flag env) = Inr p2"
    "get_git_branch_name env log = (Inr b, l)" "add_argument p2 (branch_flag b) = Inr p3"
    "add_argument p3 cpu_flag = Inr p4" "add_argument p4 push_flag = Inr p5"
    "add_argument p5 download_flag = Inl e"
  then show "init_parser env (Some p) log = (Inl e, l)" by (rule add_argument_raises_6)
next
  fix e l
  assume "init_parser env None [] = (Inl e, l)"
  then show "main env argv [] = (Inl e, l)" by (rule init_parser_raises)
next
  fix p l e
  assume "init_parser env None [] = (Inr p, l)" and "get_parser env p = Inl e"
  then show "main env argv [] = (Inl e, l)" by (rule main_get_parser_raises)
next
  fix a log0
  assume pc: "parse_cli env argv [] = (Inr a, log0)"
  then have m: "main env argv [] = run_args env a log0" by (rule main_after_parse)
  {
    assume "\<not> full a \<and> \<not> learning a \<and> \<not> testing a"
    then show "main env argv [] = (Inl NotImplementedError, log0)"
      by (simp add: m run_args_no_pipeline)
  }
  assume pl: "full a \<or> learning a \<or> testing a"
  {
    fix e assume "lookup_user env (user a) = Inl e"
    with pl show "main env argv [] = (Inl e, log0)"
      by (simp add: m run_args_lookup_raises)
  }
  fix ku
  assume ku: "lookup_user env (user a) = Inr ku"
  {
    fix e assume "getitem ku ''username'' = Inl e"
    with pl ku show "main env argv [] = (Inl e, log0)"
      by (simp add: m run_args_username_raises)
  }
  fix uname
  assume un: "getitem ku ''username'' = Inr uname" and nd: "\<not> download a"
  {
    assume q: "quiet env log0 [Load_config ku, Makedirs (kernel_path_of a uname)]"
    {
      assume "GIT_USER (constants env) = None"
      with pl ku un nd q show "main env argv [] =
          (Inl (AssertionError ''Please provide a git username for the repo''),
           log0 @ [Load_config ku, Makedirs (kernel_path_of a uname)])"
        unfolding m by (rule run_args_git_user_None)
    }
    assume "GIT_USER (constants env) \<noteq> None" and gr: "GIT_REPO (constants env) = None"
    then obtain gu where "GIT_USER (constants env) = Some gu" by auto
    with pl ku un nd q show "main env argv [] =
          (Inl (AssertionError ''Please provide a git repo name for the repo''),
           log0 @ [Load_config ku, Makedirs (kernel_path_of a uname)])"
      unfolding m using gr by (rule run_args_git_repo_None)
  }
  fix gu gr
  assume "GIT_USER (constants env) = Some gu" and "GIT_REPO (constants env) = Some gr"
    and "quiet env log0
           [Load_config ku, Makedirs (kernel_path_of a uname),
            Open_read (template_path_of env), Readlines (template_path_of env),
            Open_write (notebook_path_of a uname),
            Write (notebook_path_of a uname) (notebook_text env a log0 ku uname gu gr),
            Path_exists (notebook_path_of a uname)]"
    and "\<not> path_exists_result env
            (log0 @ [Load_config ku, Makedirs (kernel_path_of a uname),
               Open_read (template_path_of env), Readlines (template_path_of env),
               Open_write (notebook_path_of a uname),
               Write (notebook_path_of a uname) (notebook_text env a log0 ku uname gu gr)])
            (notebook_path_of a uname)"
  with pl ku un nd show "main env argv [] =
     (Inl (AssertionError []),
      log0 @ [Load_config ku, Makedirs (kernel_path_of a uname),
            Open_read (template_path_of env), Readlines (template_path_of env),
            Open_write (notebook_path_of a uname),
            Write (notebook_path_of a uname) (notebook_text env a log0 ku uname gu gr),
            Path_exists (notebook_path_of a uname)])"
    unfolding m by (rule run_args_no_file)
qed

theorem main_propagates_witness:
  "main no_push_env [] [] = (Inl (Raised ''ApiException''), demo_trace) \<and>
   fails no_push_env (take 11 demo_trace) (demo_trace ! 11) = Some (Raised ''ApiException'') \<and>
   \<not> handled (demo_trace ! 11) (Raised ''ApiException'') \<and>
   Suc 11 = length demo_trace \<and>
   fails no_decode_env [] (Check_output git_command) = None \<and>
   decode no_decode_env (strip (check_output_result no_decode_env [] git_command)) =
     Inl (Raised ''UnicodeDecodeError'') \<and>
   main no_decode_env [] [] = (Inl (Raised ''UnicodeDecodeError''), [Check_output git_command]) \<and>
   parse_cli no_file_env [] [] = (Inr demo_args, [Check_output git_command, Parse_args []]) \<and>
   path_exists_result no_file_env = (\<lambda>log p. False) \<and>
   main no_file_env [] [] = (Inl (AssertionError []), take 9 demo_trace)"
proof -
  have l: "11 < length demo_trace" by (simp add: demo_trace_def)
  have f: "fails no_push_env (take 11 demo_trace) (demo_trace ! 11) = Some (Raised ''ApiException'')"
    by (simp add: demo_trace_def no_push_env_def demo_env_def)
  have h: "\<not> handled (demo_trace ! 11) (Raised ''ApiException'')"
    by (simp add: handled_def)
  have c1: "Suc 11 = length demo_trace"
    using main_propagates[of no_push_env "[]", THEN conjunct1, rule_format, OF main_no_push l f h]
    by (rule conjunct2)
  have df: "fails no_decode_env [] (Check_output git_command) = None"
    by (simp add: no_decode_env_def demo_env_def)
  have dd: "decode no_decode_env (strip (check_output_result no_decode_env [] git_command)) =
     Inl (Raised ''UnicodeDecodeError'')"
    by (simp add: no_decode_env_def demo_env_def)
  have c2: "main no_decode_env [] [] = (Inl (Raised ''UnicodeDecodeError''), [Check_output git_command])"
    using main_propagates[of no_decode_env "[]", THEN conjunct2, THEN conjunct2, THEN conjunct1,
        rule_format, OF df dd]
    by simp
  have pl: "full demo_args \<or> learning demo_args \<or> testing demo_args"
    by (simp add: demo_args_def)
  have ku: "lookup_user no_file_env (user demo_args) = Inr demo_user"
    by (simp add: lookup_user_def getitem_def no_file_env_def demo_env_def demo_args_def
        demo_user_def)
  have un: "getitem demo_user ''username'' = Inr ''alice_k''"
    by (simp add: getitem_def demo_user_def)
  have nd: "\<not> download demo_args" by (simp add: demo_args_def)
  have gu: "GIT_USER (constants no_file_env) = Some ''alice''"
    and gr: "GIT_REPO (constants no_file_env) = Some ''nlp''"
    by (simp_all add: no_file_env_def demo_env_def demo_constants_def)
  have fl: "fails no_file_env = (\<lambda>log ev. None)" by (simp add: no_file_env_def demo_env_def)
  have pe: "path_exists_result no_file_env = (\<lambda>log p. False)" by (simp add: no_file_env_def)
  note s1 = main_propagates[of no_file_env "[]", THEN conjunct2, THEN conjunct2, THEN conjunct2,
      THEN conjunct2, THEN conjunct2, THEN conjunct2, rule_format, OF parse_no_file]
  note s2 = s1[THEN conjunct2, rule_format, OF pl]
  note s3 = s2[THEN conjunct2, rule_format, OF ku]
  note s4 = s3[THEN conjunct2, rule_format, OF un nd]
  note s5 = s4[THEN conjunct2, rule_format, OF gu gr]
  have "main no_file_env [] [] =
      (Inl (AssertionError []),
       [Check_output git_command, Parse_args []] @
       [Load_config demo_user, Makedirs (kernel_path_of demo_args ''alice_k''),
        Open_read (template_path_of no_file_env), Readlines (template_path_of no_file_env),
        Open_write (notebook_path_of demo_args ''alice_k''),
        Write (notebook_path_of demo_args ''alice_k'')
          (notebook_text no_file_env demo_args [Check_output git_command, Parse_args []]
             demo_user ''alice_k'' ''alice'' ''nlp''),
        Path_exists (notebook_path_of demo_args ''alice_k'')])"
    by (rule s5) (simp_all add: fl pe)
  then have c3: "main no_file_env [] [] = (Inl (AssertionError []), take 9 demo_trace)"
    unfolding no_file_calls .
  show ?thesis
    by (intro conjI main_no_push f h c1 df dd c2 parse_no_file pe c3)
qed

text \<open>
  C4. A run of \<^verbatim>\<open>main\<close> that returns without taking the download branch has made exactly
  these external calls, in this order: the git query and the argument parsing; the loading of
  the credentials and the creation of the kernel directory; the four calls of
  \<^verbatim>\<open>prepare_notebook\<close> (template opened and read, notebook opened and written); the
  existence check; the opening and the dump of the kernel metadata; and, when the push flag is
  set, the push, last. Each call occurs once.
\<close>

theorem main_linear_order:
  assumes "parse_cli env argv [] = (Inr a, log0)"
    and "main env argv [] = (Inr (), tr)"
    and "\<not> download a"
  shows "\<exists>ku uname gu gr cfg.
     lookup_user env (user a) = Inr ku \<and> getitem ku ''username'' = Inr uname \<and>
     GIT_USER (constants env) = Some gu \<and> GIT_REPO (constants env) = Some gr \<and>
     define_config env a ku (exp_str_of a) (notebook_id a) = Inr cfg \<and>
     tr = [Check_output git_command,
           Parse_args argv,
           Load_config ku,
           Makedirs (kernel_path_of a uname),
           Open_read (template_path_of env),
           Readlines (template_path_of env),
           Open_write (notebook_path_of a uname),
           Write (notebook_path_of a uname) (notebook_text env a log0 ku uname gu gr),
           Path_exists (notebook_path_of a uname),
           Open_write (metadata_path_of a uname),
           Json_dump (metadata_path_of a uname) cfg]
          @ (if push a then [Kernels_push_cli (kernel_path_of a uname)] else [])"
proof -
  have l0: "log0 = [Check_output git_command, Parse_args argv]"
    using parse_cli_log[OF assms(1)] by simp
  from assms(1,2) have run: "run_args env a log0 = (Inr (), tr)"
    by (simp add: main_after_parse)
  from run_args_success[OF run] assms(3)
  obtain ku uname gu gr cfg where
    "lookup_user env (user a) = Inr ku" "getitem ku ''username'' = Inr uname"
    "GIT_USER (constants env) = Some gu" "GIT_REPO (constants env) = Some gr"
    "define_config env a ku (exp_str_of a) (notebook_id a) = Inr cfg"
    "tr = log0 @ launch_plan env a log0 ku uname gu gr cfg"
    by auto
  then show ?thesis
    unfolding l0 launch_plan_def
    by (intro exI[of _ ku] exI[of _ uname] exI[of _ gu] exI[of _ gr] exI[of _ cfg]) simp
qed

theorem main_linear_order_witness:
  "parse_cli demo_env [] [] = (Inr demo_args, [Check_output git_command, Parse_args []]) \<and>
   main demo_env [] [] = (Inr (), demo_trace) \<and> \<not> download demo_args \<and>
   (\<exists>ku uname gu gr cfg.
     demo_trace =
          [Check_output git_command,
           Parse_args [],
           Load_config ku,
           Makedirs (kernel_path_of demo_args uname),
           Open_read (template_path_of demo_env),
           Readlines (template_path_of demo_env),
           Open_write (notebook_path_of demo_args uname),
           Write (notebook_path_of demo_args uname)
             (notebook_text demo_env demo_args [Check_output git_command, Parse_args []]
                ku uname gu gr),
           Path_exists (notebook_path_of demo_args uname),
           Open_write (metadata_path_of demo_args uname),
           Json_dump (metadata_path_of demo_args uname) cfg]
          @ (if push demo_args then [Kernels_push_cli (kernel_path_of demo_args uname)] else []))"
proof -
  have d: "\<not> download demo_args" by (simp add: demo_args_def)
  from main_linear_order[OF parse_demo main_demo d] show ?thesis
    using parse_demo main_demo d by blast
qed

text \<open>
  C6, as stated: the push is called if and only if the push flag is set and the download flag
  is not (and a run with the download flag set downloads, extracts and returns). It fails on
  a run that raises before it reaches the call: with the push flag set, the download flag not
  set and no pipeline flag, \<^verbatim>\<open>main\<close> raises \<^verbatim>\<open>NotImplementedError\<close> and the push is
  never called.
\<close>

theorem main_push_download_counterexample:
  "parse_cli no_pipeline_env [] [] =
     (Inr (demo_args\<lparr>full := False\<rparr>), [Check_output git_command, Parse_args []]) \<and>
   push (demo_args\<lparr>full := False\<rparr>) \<and> \<not> download (demo_args\<lparr>full := False\<rparr>) \<and>
   main no_pipeline_env [] [] =
     (Inl NotImplementedError, [Check_output git_command, Parse_args []]) \<and>
   filter is_push [Check_output git_command, Parse_args []] = []"
  by code_simp

text \<open>
  C6, amended. A run whose download flag is set opens no file for writing, writes none and
  does not call the push; when it returns it has loaded the credentials, created the temporary
  directory, fetched the kernel output, run \<^verbatim>\<open>tar\<close> and removed the directory, and
  nothing else. The push is called only when the push flag is set and the download flag is
  not; and a run that returns with the push flag set and the download flag not set has
  called it, last.
\<close>

theorem main_push_download:
  assumes "parse_cli env argv [] = (Inr a, log0)"
    and "main env argv [] = (r, tr)"
  shows "(download a \<longrightarrow> (\<forall>ev\<in>set tr. \<not> is_write ev \<and> \<not> is_push ev)) \<and>
     (download a \<and> r = Inr () \<longrightarrow>
        (\<exists>ku uname. tr =
           [Check_output git_command,
            Parse_args argv,
            Load_config ku,
            Makedirs (tmp_dir_of a),
            Kernels_output_cli (uname @ ''/'' @ notebook_id a) (tmp_dir_of a),
            Subprocess_run [''tar'', ''-xzf'', tmp_dir_of a @ ''/output.tgz'',
                            OUTPUT_FOLDER (constants env)],
            Rmtree (tmp_dir_of a)])) \<and>
     ((\<exists>ev\<in>set tr. is_push ev) \<longrightarrow> push a \<and> \<not> download a) \<and>
     (r = Inr () \<and> push a \<and> \<not> download a \<longrightarrow>
        (\<exists>uname. last tr = Kernels_push_cli (kernel_path_of a uname)))"
proof -
  have l0: "log0 = [Check_output git_command, Parse_args argv]"
    using parse_cli_log[OF assms(1)] by simp
  from assms have run: "run_args env a log0 = (r, tr)"
    by (simp add: main_after_parse)
  from run_args_prefix[OF run] obtain ku uname gu gr cfg new where
    tr: "tr = log0 @ new"
    and pre: "prefix new (if download a then download_plan env a ku uname
                          else launch_plan env a log0 ku uname gu gr cfg)"
    by blast
  have quiet0: "\<forall>ev\<in>set log0. \<not> is_write ev \<and> \<not> is_push ev" by (simp add: l0)
  have c1: "download a \<longrightarrow> (\<forall>ev\<in>set tr. \<not> is_write ev \<and> \<not> is_push ev)"
  proof
    assume d: "download a"
    with pre have "set new \<subseteq> set (download_plan env a ku uname)"
      by (simp add: set_mono_prefix)
    with download_plan_quiet[of env a ku uname]
    have "\<forall>ev\<in>set new. \<not> is_write ev \<and> \<not> is_push ev" by blast
    with quiet0 tr show "\<forall>ev\<in>set tr. \<not> is_write ev \<and> \<not> is_push ev" by auto
  qed
  have c2: "download a \<and> r = Inr () \<longrightarrow>
        (\<exists>ku uname. tr =
           [Check_output git_command,
            Parse_args argv,
            Load_config ku,
            Makedirs (tmp_dir_of a),
            Kernels_output_cli (uname @ ''/'' @ notebook_id a) (tmp_dir_of a),
            Subprocess_run [''tar'', ''-xzf'', tmp_dir_of a @ ''/output.tgz'',
                            OUTPUT_FOLDER (constants env)],
            Rmtree (tmp_dir_of a)])"
  proof
    assume dr: "download a \<and> r = Inr ()"
    with run have "run_args env a log0 = (Inr (), tr)" by simp
    from run_args_success[OF this] dr obtain ku' uname' where
      "tr = log0 @ download_plan env a ku' uname'" by auto
    then show "\<exists>ku uname. tr =
           [Check_output git_command,
            Parse_args argv,
            Load_config ku,
            Makedirs (tmp_dir_of a),
            Kernels_output_cli (uname @ ''/'' @ notebook_id a) (tmp_dir_of a),
            Subprocess_run [''tar'', ''-xzf'', tmp_dir_of a @ ''/output.tgz'',
                            OUTPUT_FOLDER (constants env)],
            Rmtree (tmp_dir_of a)]"
      unfolding l0 download_plan_def
      by (intro exI[of _ ku'] exI[of _ uname']) simp
  qed
  have c3: "(\<exists>ev\<in>set tr. is_push ev) \<longrightarrow> push a \<and> \<not> download a"
  proof
    assume ex: "\<exists>ev\<in>set tr. is_push ev"
    with c1 have nd: "\<not> download a" by blast
    have "push a"
    proof (rule ccontr)
      assume np: "\<not> push a"
      from nd pre have "set new \<subseteq> set (launch_plan env a log0 ku uname gu gr cfg)"
        by (simp add: set_mono_prefix)
      with launch_plan_no_push[OF np, of env log0 ku uname gu gr cfg]
      have "\<forall>ev\<in>set new. \<not> is_push ev" by blast
      with quiet0 tr ex show False by auto
    qed
    with nd show "push a \<and> \<not> download a" by simp
  qed
  have c4: "r = Inr () \<and> push a \<and> \<not> download a \<longrightarrow>
        (\<exists>uname. last tr = Kernels_push_cli (kernel_path_of a uname))"
  proof
    assume h: "r = Inr () \<and> push a \<and> \<not> download a"
    with run have "run_args env a log0 = (Inr (), tr)" by simp
    from run_args_success[OF this] h obtain ku' uname' gu' gr' cfg' where
      "tr = log0 @ launch_plan env a log0 ku' uname' gu' gr' cfg'" by auto
    with h have "last tr = Kernels_push_cli (kernel_path_of a uname')"
      by (simp add: launch_plan_def)
    then show "\<exists>uname. last tr = Kernels_push_cli (kernel_path_of a uname)" by blast
  qed
  from c1 c2 c3 c4 show ?thesis by blast
qed

theorem main_push_download_witness:
  "parse_cli download_env [] [] =
     (Inr (demo_args\<lparr>download := True\<rparr>), [Check_output git_command, Parse_args []]) \<and>
   main download_env [] [] = (Inr (), download_trace) \<and>
   download (demo_args\<lparr>download := True\<rparr>) \<and>
   filter (\<lambda>ev. is_write ev \<or> is_push ev) download_trace = [] \<and>
   parse_cli demo_env [] [] = (Inr demo_args, [Check_output git_command, Parse_args []]) \<and>
   main demo_env [] [] = (Inr (), demo_trace) \<and>
   push demo_args \<and> \<not> download demo_args \<and>
   (\<exists>uname. last demo_trace = Kernels_push_cli (kernel_path_of demo_args uname))"
proof -
  have d: "download (demo_args\<lparr>download := True\<rparr>)" by (simp add: demo_args_def)
  have p: "push demo_args" "\<not> download demo_args" by (simp_all add: demo_args_def)
  from main_push_download[OF parse_download main_download] d
  have "\<forall>ev\<in>set download_trace. \<not> is_write ev \<and> \<not> is_push ev" by blast
  then have a: "filter (\<lambda>ev. is_write ev \<or> is_push ev) download_trace = []"
    by (simp add: filter_empty_conv)
  from main_push_download[OF parse_demo main_demo] p
  have b: "\<exists>uname. last demo_trace = Kernels_push_cli (kernel_path_of demo_args uname)" by blast
  from a b d p parse_download main_download parse_demo main_demo show ?thesis by blast
qed

text \<open>
  C7, as stated: on every run that does not download, the notebook and the metadata file are
  each written exactly once. It fails on a run that raises before the writing: with no
  pipeline flag and the download flag not set, \<^verbatim>\<open>main\<close> raises
  \<^verbatim>\<open>NotImplementedError\<close> and neither file is opened or written.
\<close>

theorem main_writes_once_counterexample:
  "parse_cli no_pipeline_env [] [] =
     (Inr (demo_args\<lparr>full := False\<rparr>), [Check_output git_command, Parse_args []]) \<and>
   \<not> download (demo_args\<lparr>full := False\<rparr>) \<and>
   main no_pipeline_env [] [] =
     (Inl NotImplementedError, [Check_output git_command, Parse_args []]) \<and>
   filter is_write [Check_output git_command, Parse_args []] = []"
  by code_simp

text \<open>
  C7, amended. In a run that does not download, the calls that open a file for writing or
  write to it are a beginning of this list: the notebook opened, the notebook written, the
  metadata file opened, the metadata dumped. When the run returns they are the whole list:
  each of the two files, which are different, is opened once and written once, the notebook
  before the metadata, and nothing is written after the dump.
\<close>

theorem main_writes_once:
  assumes "parse_cli env argv [] = (Inr a, log0)"
    and "main env argv [] = (r, tr)"
    and "\<not> download a"
  shows "\<exists>uname text cfg.
     prefix (filter is_write tr)
       [Open_write (notebook_path_of a uname), Write (notebook_path_of a uname) text,
        Open_write (metadata_path_of a uname), Json_dump (metadata_path_of a uname) cfg] \<and>
     (r = Inr () \<longrightarrow> filter is_write tr =
       [Open_write (notebook_path_of a uname), Write (notebook_path_of a uname) text,
        Open_write (metadata_path_of a uname), Json_dump (metadata_path_of a uname) cfg]) \<and>
     notebook_path_of a uname \<noteq> metadata_path_of a uname"
proof -
  have l0: "log0 = [Check_output git_command, Parse_args argv]"
    using parse_cli_log[OF assms(1)] by simp
  from assms have run: "run_args env a log0 = (r, tr)"
    by (simp add: main_after_parse)
  show ?thesis
  proof (cases r)
    case (Inl e)
    from run_args_prefix[OF run] assms(3) obtain ku uname gu gr cfg new where
      tr: "tr = log0 @ new" and pre: "prefix new (launch_plan env a log0 ku uname gu gr cfg)"
      by auto
    from pre have "prefix (filter is_write new)
        (filter is_write (launch_plan env a log0 ku uname gu gr cfg))"
      by (rule filter_mono_prefix)
    moreover have "filter is_write tr = filter is_write new" by (simp add: tr l0)
    ultimately show ?thesis
      using Inl paths_differ[of a uname]
      by (intro exI[of _ uname] exI[of _ "notebook_text env a log0 ku uname gu gr"] exI[of _ cfg])
        (simp add: launch_plan_writes)
  next
    case (Inr u)
    with run have "run_args env a log0 = (Inr (), tr)" by simp
    from run_args_success[OF this] assms(3) obtain ku uname gu gr cfg where
      tr: "tr = log0 @ launch_plan env a log0 ku uname gu gr cfg" by auto
    have "filter is_write tr = filter is_write (launch_plan env a log0 ku uname gu gr cfg)"
      by (simp add: tr l0)
    then show ?thesis
      using paths_differ[of a uname]
      by (intro exI[of _ uname] exI[of _ "notebook_text env a log0 ku uname gu gr"] exI[of _ cfg])
        (simp add: launch_plan_writes)
  qed
qed

theorem main_writes_once_witness:
  "parse_cli demo_env [] [] = (Inr demo_args, [Check_output git_command, Parse_args []]) \<and>
   main demo_env [] [] = (Inr (), demo_trace) \<and> \<not> download demo_args \<and>
   (\<exists>uname text cfg.
     filter is_write demo_trace =
       [Open_write (notebook_path_of demo_args uname),
        Write (notebook_path_of demo_args uname) text,
        Open_write (metadata_path_of demo_args uname),
        Json_dump (metadata_path_of demo_args uname) cfg] \<and>
     notebook_path_of demo_args uname \<noteq> metadata_path_of demo_args uname)"
proof -
  have d: "\<not> download demo_args" by (simp add: demo_args_def)
  from main_writes_once[OF parse_demo main_demo d] show ?thesis
    using parse_demo main_demo d by blast
qed

subsection \<open>The notebook template\<close>




end
